theory Spec2Isabelle
  imports Main "HOL-Library.Word"
begin

unbundle bit_operations_syntax

section \<open>Azoteq IQS269A capacitive touch controller: register image and event decoding\<close>

text \<open>
  A shallow embedding of \<^verbatim>\<open>drivers/input/misc/iqs269a.c\<close>. C's fixed-width unsigned
  integers are words (\<^verbatim>\<open>u8\<close>, \<^verbatim>\<open>u16\<close>, \<^verbatim>\<open>unsigned int\<close>), structs are records, arrays are
  lists read with \<open>!\<close> and written with list update, and a function that mutates
  \<^verbatim>\<open>struct iqs269_private\<close> through its pointer takes the structure and returns it
  together with its return code. The mutex only serialises callers and is not modelled:
  the embedding is sequential.
\<close>

subsection \<open>Machine integers and error codes\<close>

type_synonym u8 = "8 word"
type_synonym u16 = "16 word"
type_synonym u32 = "32 word"

text \<open>The negative \<^verbatim>\<open>errno\<close> values a function of the driver can return.\<close>

datatype errno = EINVAL | EOVERFLOW | ENOMEM | EIO | EREMOTEIO | ETIMEDOUT

text \<open>
  A \<^verbatim>\<open>__be16\<close> field is two bytes in memory, most significant first. The conversions
  do not depend on the byte order of the CPU.
\<close>

type_synonym be16 = "u8 \<times> u8"

definition cpu_to_be16 :: "u16 \<Rightarrow> be16" where
  "cpu_to_be16 w = (ucast (drop_bit 8 w), ucast w)"

definition be16_to_cpu :: "be16 \<Rightarrow> u16" where
  "be16_to_cpu b = push_bit 8 (ucast (fst b)) OR ucast (snd b)"

text \<open>\<^verbatim>\<open>BIT(n)\<close> for the 8-bit masks of the register image.\<close>

definition BIT8 :: "nat \<Rightarrow> u8" where
  "BIT8 n = push_bit n 1"

subsection \<open>Constants of the register map\<close>

definition IQS269_VER_INFO_FW_NUM_3 :: u8 where "IQS269_VER_INFO_FW_NUM_3 = 0x10"

definition IQS269_SYS_FLAGS :: u32 where "IQS269_SYS_FLAGS = 0x02"
definition IQS269_SYS_FLAGS_SHOW_RESET :: u16 where "IQS269_SYS_FLAGS_SHOW_RESET = 0x8000"
definition IQS269_SYS_FLAGS_IN_ATI :: u16 where "IQS269_SYS_FLAGS_IN_ATI = 0x0400"

definition IQS269_SLIDER_X :: u32 where "IQS269_SLIDER_X = 0x30"

definition IQS269_SYS_SETTINGS :: u32 where "IQS269_SYS_SETTINGS = 0x80"
definition IQS269_SYS_SETTINGS_SLIDER_SWIPE :: u16 where
  "IQS269_SYS_SETTINGS_SLIDER_SWIPE = 0x0080"

definition IQS269_SYS_SETTINGS_CLK_DIV :: u16 where "IQS269_SYS_SETTINGS_CLK_DIV = 0x8000"
definition IQS269_SYS_SETTINGS_ULP_AUTO :: u16 where "IQS269_SYS_SETTINGS_ULP_AUTO = 0x4000"
definition IQS269_SYS_SETTINGS_DIS_AUTO :: u16 where "IQS269_SYS_SETTINGS_DIS_AUTO = 0x2000"
definition IQS269_SYS_SETTINGS_PWR_MODE_MASK :: u16 where
  "IQS269_SYS_SETTINGS_PWR_MODE_MASK = 0x1800"
definition IQS269_SYS_SETTINGS_PWR_MODE_SHIFT :: nat where
  "IQS269_SYS_SETTINGS_PWR_MODE_SHIFT = 11"
definition IQS269_SYS_SETTINGS_PWR_MODE_MAX :: u32 where "IQS269_SYS_SETTINGS_PWR_MODE_MAX = 3"
definition IQS269_SYS_SETTINGS_ULP_UPDATE_MASK :: u16 where
  "IQS269_SYS_SETTINGS_ULP_UPDATE_MASK = 0x0700"
definition IQS269_SYS_SETTINGS_ULP_UPDATE_SHIFT :: nat where
  "IQS269_SYS_SETTINGS_ULP_UPDATE_SHIFT = 8"
definition IQS269_SYS_SETTINGS_ULP_UPDATE_MAX :: u32 where
  "IQS269_SYS_SETTINGS_ULP_UPDATE_MAX = 7"
definition IQS269_SYS_SETTINGS_RESEED_OFFSET :: u16 where
  "IQS269_SYS_SETTINGS_RESEED_OFFSET = 0x0040"
definition IQS269_SYS_SETTINGS_EVENT_MODE :: u16 where "IQS269_SYS_SETTINGS_EVENT_MODE = 0x0020"
definition IQS269_SYS_SETTINGS_EVENT_MODE_LP :: u16 where
  "IQS269_SYS_SETTINGS_EVENT_MODE_LP = 0x0010"
definition IQS269_SYS_SETTINGS_REDO_ATI :: u16 where "IQS269_SYS_SETTINGS_REDO_ATI = 0x0004"
definition IQS269_SYS_SETTINGS_ACK_RESET :: u16 where "IQS269_SYS_SETTINGS_ACK_RESET = 0x0001"

definition IQS269_FILT_STR_LP_LTA_MASK :: u8 where "IQS269_FILT_STR_LP_LTA_MASK = 0xC0"
definition IQS269_FILT_STR_LP_LTA_SHIFT :: nat where "IQS269_FILT_STR_LP_LTA_SHIFT = 6"
definition IQS269_FILT_STR_LP_CNT_MASK :: u8 where "IQS269_FILT_STR_LP_CNT_MASK = 0x30"
definition IQS269_FILT_STR_LP_CNT_SHIFT :: nat where "IQS269_FILT_STR_LP_CNT_SHIFT = 4"
definition IQS269_FILT_STR_NP_LTA_MASK :: u8 where "IQS269_FILT_STR_NP_LTA_MASK = 0x0C"
definition IQS269_FILT_STR_NP_LTA_SHIFT :: nat where "IQS269_FILT_STR_NP_LTA_SHIFT = 2"
definition IQS269_FILT_STR_NP_CNT_MASK :: u8 where "IQS269_FILT_STR_NP_CNT_MASK = 0x03"
definition IQS269_FILT_STR_MAX :: u32 where "IQS269_FILT_STR_MAX = 3"

definition IQS269_EVENT_MASK_SYS :: u8 where "IQS269_EVENT_MASK_SYS = 0x40"
definition IQS269_EVENT_MASK_GESTURE :: u8 where "IQS269_EVENT_MASK_GESTURE = 0x08"
definition IQS269_EVENT_MASK_DEEP :: u8 where "IQS269_EVENT_MASK_DEEP = 0x04"
definition IQS269_EVENT_MASK_TOUCH :: u8 where "IQS269_EVENT_MASK_TOUCH = 0x02"
definition IQS269_EVENT_MASK_PROX :: u8 where "IQS269_EVENT_MASK_PROX = 0x01"

definition IQS269_RATE_NP_MS_MAX :: u32 where "IQS269_RATE_NP_MS_MAX = 255"
definition IQS269_RATE_LP_MS_MAX :: u32 where "IQS269_RATE_LP_MS_MAX = 255"
definition IQS269_RATE_ULP_MS_MAX :: u32 where "IQS269_RATE_ULP_MS_MAX = 4080"
definition IQS269_TIMEOUT_PWR_MS_MAX :: u32 where "IQS269_TIMEOUT_PWR_MS_MAX = 130560"
definition IQS269_TIMEOUT_LTA_MS_MAX :: u32 where "IQS269_TIMEOUT_LTA_MS_MAX = 130560"

definition IQS269_MISC_A_ATI_BAND_DISABLE :: u16 where "IQS269_MISC_A_ATI_BAND_DISABLE = 0x8000"
definition IQS269_MISC_A_ATI_LP_ONLY :: u16 where "IQS269_MISC_A_ATI_LP_ONLY = 0x4000"
definition IQS269_MISC_A_ATI_BAND_TIGHTEN :: u16 where "IQS269_MISC_A_ATI_BAND_TIGHTEN = 0x2000"
definition IQS269_MISC_A_FILT_DISABLE :: u16 where "IQS269_MISC_A_FILT_DISABLE = 0x1000"
definition IQS269_MISC_A_GPIO3_SELECT_MASK :: u16 where "IQS269_MISC_A_GPIO3_SELECT_MASK = 0x0700"
definition IQS269_MISC_A_GPIO3_SELECT_SHIFT :: nat where "IQS269_MISC_A_GPIO3_SELECT_SHIFT = 8"
definition IQS269_MISC_A_DUAL_DIR :: u16 where "IQS269_MISC_A_DUAL_DIR = 0x0040"
definition IQS269_MISC_A_TX_FREQ_MASK :: u16 where "IQS269_MISC_A_TX_FREQ_MASK = 0x0030"
definition IQS269_MISC_A_TX_FREQ_SHIFT :: nat where "IQS269_MISC_A_TX_FREQ_SHIFT = 4"
definition IQS269_MISC_A_TX_FREQ_MAX :: u32 where "IQS269_MISC_A_TX_FREQ_MAX = 3"
definition IQS269_MISC_A_GLOBAL_CAP_SIZE :: u16 where "IQS269_MISC_A_GLOBAL_CAP_SIZE = 0x0001"

definition IQS269_MISC_B_RESEED_UI_SEL_MASK :: u16 where
  "IQS269_MISC_B_RESEED_UI_SEL_MASK = 0x00C0"
definition IQS269_MISC_B_RESEED_UI_SEL_SHIFT :: nat where
  "IQS269_MISC_B_RESEED_UI_SEL_SHIFT = 6"
definition IQS269_MISC_B_RESEED_UI_SEL_MAX :: u32 where "IQS269_MISC_B_RESEED_UI_SEL_MAX = 3"
definition IQS269_MISC_B_TRACKING_UI_ENABLE :: u16 where
  "IQS269_MISC_B_TRACKING_UI_ENABLE = 0x0010"
definition IQS269_MISC_B_FILT_STR_SLIDER :: u16 where "IQS269_MISC_B_FILT_STR_SLIDER = 0x0003"

definition IQS269_TOUCH_HOLD_MS_MIN :: u32 where "IQS269_TOUCH_HOLD_MS_MIN = 256"
definition IQS269_TOUCH_HOLD_MS_MAX :: u32 where "IQS269_TOUCH_HOLD_MS_MAX = 65280"

definition IQS269_TOUCH_HOLD_SLIDER_SEL :: u32 where "IQS269_TOUCH_HOLD_SLIDER_SEL = 0x89"
definition IQS269_TOUCH_HOLD_DEFAULT :: u32 where "IQS269_TOUCH_HOLD_DEFAULT = 0x14"

definition IQS269_TIMEOUT_TAP_MS_MAX :: u32 where "IQS269_TIMEOUT_TAP_MS_MAX = 4080"
definition IQS269_TIMEOUT_SWIPE_MS_MAX :: u32 where "IQS269_TIMEOUT_SWIPE_MS_MAX = 4080"
definition IQS269_THRESH_SWIPE_MAX :: u32 where "IQS269_THRESH_SWIPE_MAX = 255"

definition IQS269_CHx_ENG_A_ATI_MODE_MASK :: u16 where
  "IQS269_CHx_ENG_A_ATI_MODE_MASK = 0x0300"
definition IQS269_CHx_ENG_A_ATI_MODE_SHIFT :: nat where
  "IQS269_CHx_ENG_A_ATI_MODE_SHIFT = 8"
definition IQS269_CHx_ENG_A_ATI_MODE_MAX :: u32 where
  "IQS269_CHx_ENG_A_ATI_MODE_MAX = 3"

definition IQS269_CHx_ENG_A_MEAS_CAP_SIZE :: u16 where
  "IQS269_CHx_ENG_A_MEAS_CAP_SIZE = 0x8000"
definition IQS269_CHx_ENG_A_RX_GND_INACTIVE :: u16 where
  "IQS269_CHx_ENG_A_RX_GND_INACTIVE = 0x2000"
definition IQS269_CHx_ENG_A_LOCAL_CAP_SIZE :: u16 where
  "IQS269_CHx_ENG_A_LOCAL_CAP_SIZE = 0x1000"
definition IQS269_CHx_ENG_A_INV_LOGIC :: u16 where
  "IQS269_CHx_ENG_A_INV_LOGIC = 0x0080"
definition IQS269_CHx_ENG_A_PROJ_BIAS_MASK :: u16 where
  "IQS269_CHx_ENG_A_PROJ_BIAS_MASK = 0x0060"
definition IQS269_CHx_ENG_A_PROJ_BIAS_SHIFT :: nat where
  "IQS269_CHx_ENG_A_PROJ_BIAS_SHIFT = 5"
definition IQS269_CHx_ENG_A_PROJ_BIAS_MAX :: u32 where
  "IQS269_CHx_ENG_A_PROJ_BIAS_MAX = 3"
definition IQS269_CHx_ENG_A_SENSE_MODE_MASK :: u16 where
  "IQS269_CHx_ENG_A_SENSE_MODE_MASK = 0x000F"
definition IQS269_CHx_ENG_A_SENSE_MODE_MAX :: u32 where
  "IQS269_CHx_ENG_A_SENSE_MODE_MAX = 15"

definition IQS269_CHx_ENG_B_LOCAL_CAP_ENABLE :: u16 where
  "IQS269_CHx_ENG_B_LOCAL_CAP_ENABLE = 0x2000"
definition IQS269_CHx_ENG_B_SENSE_FREQ_MASK :: u16 where
  "IQS269_CHx_ENG_B_SENSE_FREQ_MASK = 0x0600"
definition IQS269_CHx_ENG_B_SENSE_FREQ_SHIFT :: nat where
  "IQS269_CHx_ENG_B_SENSE_FREQ_SHIFT = 9"
definition IQS269_CHx_ENG_B_SENSE_FREQ_MAX :: u32 where
  "IQS269_CHx_ENG_B_SENSE_FREQ_MAX = 3"
definition IQS269_CHx_ENG_B_STATIC_ENABLE :: u16 where
  "IQS269_CHx_ENG_B_STATIC_ENABLE = 0x0100"

definition IQS269_CHx_WEIGHT_MAX :: u32 where "IQS269_CHx_WEIGHT_MAX = 255"

definition IQS269_CHx_ENG_B_ATI_BASE_MASK :: u16 where
  "IQS269_CHx_ENG_B_ATI_BASE_MASK = 0x00C0"
definition IQS269_CHx_ENG_B_ATI_BASE_75 :: u16 where "IQS269_CHx_ENG_B_ATI_BASE_75 = 0x00"
definition IQS269_CHx_ENG_B_ATI_BASE_100 :: u16 where "IQS269_CHx_ENG_B_ATI_BASE_100 = 0x40"
definition IQS269_CHx_ENG_B_ATI_BASE_150 :: u16 where "IQS269_CHx_ENG_B_ATI_BASE_150 = 0x80"
definition IQS269_CHx_ENG_B_ATI_BASE_200 :: u16 where "IQS269_CHx_ENG_B_ATI_BASE_200 = 0xC0"
definition IQS269_CHx_ENG_B_ATI_TARGET_MASK :: u16 where
  "IQS269_CHx_ENG_B_ATI_TARGET_MASK = 0x003F"
definition IQS269_CHx_ENG_B_ATI_TARGET_MAX :: u32 where
  "IQS269_CHx_ENG_B_ATI_TARGET_MAX = 2016"

definition IQS269_CHx_THRESH_MAX :: u32 where "IQS269_CHx_THRESH_MAX = 255"
definition IQS269_CHx_HYST_DEEP_MASK :: u8 where "IQS269_CHx_HYST_DEEP_MASK = 0xF0"
definition IQS269_CHx_HYST_DEEP_SHIFT :: nat where "IQS269_CHx_HYST_DEEP_SHIFT = 4"
definition IQS269_CHx_HYST_TOUCH_MASK :: u8 where "IQS269_CHx_HYST_TOUCH_MASK = 0x0F"
definition IQS269_CHx_HYST_MAX :: u32 where "IQS269_CHx_HYST_MAX = 15"

definition IQS269_CHx_HALL_INACTIVE :: nat where "IQS269_CHx_HALL_INACTIVE = 6"
definition IQS269_CHx_HALL_ACTIVE :: nat where "IQS269_CHx_HALL_ACTIVE = 7"

definition IQS269_HALL_UI :: u32 where "IQS269_HALL_UI = 0xF5"
definition IQS269_HALL_UI_ENABLE :: u32 where "IQS269_HALL_UI_ENABLE = 0x8000"

definition IQS269_OTP_OPTION_TWS :: u32 where "IQS269_OTP_OPTION_TWS = 0xD0"
definition IQS269_OTP_OPTION_HOLD :: u32 where "IQS269_OTP_OPTION_HOLD = 0x80"

definition IQS269_NUM_CH :: nat where "IQS269_NUM_CH = 8"
definition IQS269_NUM_SL :: nat where "IQS269_NUM_SL = 2"
definition IQS269_NUM_GESTURES :: nat where "IQS269_NUM_GESTURES = 4"

definition KEY_RESERVED :: u32 where "KEY_RESERVED = 0"
definition BTN_TOUCH :: u32 where "BTN_TOUCH = 0x14a"
definition ABS_X :: u32 where "ABS_X = 0x00"

subsection \<open>The register image and the driver's private data\<close>

record iqs269_switch_desc =
  sw_code :: u32
  sw_enabled :: bool

record iqs269_ver_info =
  prod_num :: u8
  sw_num :: u8
  hw_num :: u8
  fw_num :: u8

record iqs269_ch_reg =
  rx_enable :: u8
  tx_enable :: u8
  engine_a :: be16
  engine_b :: be16
  ati_comp :: be16
  thresh :: "u8 list"
  hyst :: u8
  assoc_select :: u8
  assoc_weight :: u8

record iqs269_sys_reg =
  general :: be16
  active :: u8
  filter_str :: u8
  reseed :: u8
  event_mask :: u8
  rate_np :: u8
  rate_lp :: u8
  rate_ulp :: u8
  timeout_pwr :: u8
  timeout_rdy :: u8
  timeout_lta :: u8
  misc_a :: be16
  misc_b :: be16
  blocking :: u8
  padding :: u8
  slider_select :: "u8 list"
  timeout_tap :: u8
  timeout_swipe :: u8
  thresh_swipe :: u8
  redo_ati :: u8
  ch_reg :: "iqs269_ch_reg list"

record iqs269_flags =
  system :: be16
  gesture :: u8
  flags_padding :: u8
  states :: "u8 list"

text \<open>
  \<^verbatim>\<open>struct iqs269_private\<close> without its handles to the bus, the lock and the input devices.
  \<open>ati_done\<close> is the completion: true once \<^verbatim>\<open>complete_all\<close> has run.
\<close>

record iqs269_private =
  switches :: "iqs269_switch_desc list"
  ver_info :: iqs269_ver_info
  sys_reg :: iqs269_sys_reg
  ati_done :: bool
  keycode :: "u32 list"
  sl_code :: "u32 list list"
  otp_option :: u32
  ch_num :: u32
  hall_enable :: bool
  ati_current :: bool

text \<open>The array sizes the C declarations fix.\<close>

definition iqs269_wf :: "iqs269_private \<Rightarrow> bool" where
  "iqs269_wf iqs269 \<longleftrightarrow>
     length (ch_reg (sys_reg iqs269)) = IQS269_NUM_CH \<and>
     length (slider_select (sys_reg iqs269)) = IQS269_NUM_SL \<and>
     length (switches iqs269) = 6 \<and>
     length (keycode iqs269) = 6 * IQS269_NUM_CH \<and>
     length (sl_code iqs269) = IQS269_NUM_SL \<and>
     list_all (\<lambda>row. length row = IQS269_NUM_GESTURES) (sl_code iqs269) \<and>
     list_all (\<lambda>c. length (thresh c) = 3) (ch_reg (sys_reg iqs269))"

text \<open>
  The structure as \<^verbatim>\<open>iqs269_probe\<close> gets it from \<^verbatim>\<open>devm_kzalloc\<close> (line 1817): every
  byte is zero.
\<close>

definition iqs269_ch_reg_zero :: iqs269_ch_reg where
  "iqs269_ch_reg_zero =
     \<lparr>rx_enable = 0, tx_enable = 0, engine_a = (0, 0), engine_b = (0, 0), ati_comp = (0, 0),
      thresh = [0, 0, 0], hyst = 0, assoc_select = 0, assoc_weight = 0\<rparr>"

definition iqs269_sys_reg_zero :: iqs269_sys_reg where
  "iqs269_sys_reg_zero =
     \<lparr>general = (0, 0), active = 0, filter_str = 0, reseed = 0, event_mask = 0, rate_np = 0,
      rate_lp = 0, rate_ulp = 0, timeout_pwr = 0, timeout_rdy = 0, timeout_lta = 0,
      misc_a = (0, 0), misc_b = (0, 0), blocking = 0, padding = 0, slider_select = [0, 0],
      timeout_tap = 0, timeout_swipe = 0, thresh_swipe = 0, redo_ati = 0,
      ch_reg = replicate 8 iqs269_ch_reg_zero\<rparr>"

definition iqs269_kzalloc :: iqs269_private where
  "iqs269_kzalloc =
     \<lparr>switches = replicate 6 \<lparr>sw_code = 0, sw_enabled = False\<rparr>,
      ver_info = \<lparr>prod_num = 0, sw_num = 0, hw_num = 0, fw_num = 0\<rparr>,
      sys_reg = iqs269_sys_reg_zero, ati_done = False, keycode = replicate 48 0,
      sl_code = [[0, 0, 0, 0], [0, 0, 0, 0]], otp_option = 0, ch_num = 0,
      hall_enable = False, ati_current = False\<rparr>"

subsection \<open>ATI parameter accessors\<close>

text \<open>
  \<^verbatim>\<open>iqs269_ati_mode_set\<close> (lines 356-379). \<^verbatim>\<open>engine_a\<close> is a \<^verbatim>\<open>u16\<close>: the compound
  assignments compute in a wider type and truncate to 16 bits.
\<close>

definition iqs269_ati_mode_set ::
  "iqs269_private \<Rightarrow> u32 \<Rightarrow> u32 \<Rightarrow> (errno + unit) \<times> iqs269_private" where
  "iqs269_ati_mode_set iqs269 ch mode =
     (if unat ch \<ge> IQS269_NUM_CH then (Inl EINVAL, iqs269)
      else if mode > IQS269_CHx_ENG_A_ATI_MODE_MAX then (Inl EINVAL, iqs269)
      else
        let chs = ch_reg (sys_reg iqs269);
            ea0 = be16_to_cpu (engine_a (chs ! unat ch));
            ea1 = ea0 AND NOT IQS269_CHx_ENG_A_ATI_MODE_MASK;
            ea2 = ea1 OR ucast (push_bit IQS269_CHx_ENG_A_ATI_MODE_SHIFT mode);
            chs' = chs[unat ch := (chs ! unat ch)\<lparr>engine_a := cpu_to_be16 ea2\<rparr>]
        in (Inr (), iqs269\<lparr>sys_reg := (sys_reg iqs269)\<lparr>ch_reg := chs'\<rparr>,
                           ati_current := False\<rparr>))"

text \<open>\<^verbatim>\<open>iqs269_ati_mode_get\<close> (lines 381-398).\<close>

definition iqs269_ati_mode_get ::
  "iqs269_private \<Rightarrow> u32 \<Rightarrow> (errno + u32) \<times> iqs269_private" where
  "iqs269_ati_mode_get iqs269 ch =
     (if unat ch \<ge> IQS269_NUM_CH then (Inl EINVAL, iqs269)
      else
        let chs = ch_reg (sys_reg iqs269);
            ea0 = be16_to_cpu (engine_a (chs ! unat ch));
            ea1 = ea0 AND IQS269_CHx_ENG_A_ATI_MODE_MASK
        in (Inr (ucast (drop_bit IQS269_CHx_ENG_A_ATI_MODE_SHIFT ea1)), iqs269))"

text \<open>
  \<^verbatim>\<open>iqs269_ati_base_set\<close> (lines 400-441): the \<^verbatim>\<open>switch\<close> replaces the percentage by its
  bit pattern, or returns \<^verbatim>\<open>-EINVAL\<close> in its default case.
\<close>

definition iqs269_ati_base_code :: "u32 \<Rightarrow> u16 option" where
  "iqs269_ati_base_code base =
     (if base = 75 then Some IQS269_CHx_ENG_B_ATI_BASE_75
      else if base = 100 then Some IQS269_CHx_ENG_B_ATI_BASE_100
      else if base = 150 then Some IQS269_CHx_ENG_B_ATI_BASE_150
      else if base = 200 then Some IQS269_CHx_ENG_B_ATI_BASE_200
      else None)"

definition iqs269_ati_base_set ::
  "iqs269_private \<Rightarrow> u32 \<Rightarrow> u32 \<Rightarrow> (errno + unit) \<times> iqs269_private" where
  "iqs269_ati_base_set iqs269 ch base =
     (if unat ch \<ge> IQS269_NUM_CH then (Inl EINVAL, iqs269)
      else case iqs269_ati_base_code base of
        None \<Rightarrow> (Inl EINVAL, iqs269)
      | Some code \<Rightarrow>
        let chs = ch_reg (sys_reg iqs269);
            eb0 = be16_to_cpu (engine_b (chs ! unat ch));
            eb1 = eb0 AND NOT IQS269_CHx_ENG_B_ATI_BASE_MASK;
            eb2 = eb1 OR code;
            chs' = chs[unat ch := (chs ! unat ch)\<lparr>engine_b := cpu_to_be16 eb2\<rparr>]
        in (Inr (), iqs269\<lparr>sys_reg := (sys_reg iqs269)\<lparr>ch_reg := chs'\<rparr>,
                           ati_current := False\<rparr>))"

text \<open>\<^verbatim>\<open>iqs269_ati_base_get\<close> (lines 443-476), with the \<^verbatim>\<open>default\<close> case of its switch.\<close>

definition iqs269_ati_base_get ::
  "iqs269_private \<Rightarrow> u32 \<Rightarrow> (errno + u32) \<times> iqs269_private" where
  "iqs269_ati_base_get iqs269 ch =
     (if unat ch \<ge> IQS269_NUM_CH then (Inl EINVAL, iqs269)
      else
        let chs = ch_reg (sys_reg iqs269);
            eb = be16_to_cpu (engine_b (chs ! unat ch));
            sel = eb AND IQS269_CHx_ENG_B_ATI_BASE_MASK
        in if sel = IQS269_CHx_ENG_B_ATI_BASE_75 then (Inr 75, iqs269)
           else if sel = IQS269_CHx_ENG_B_ATI_BASE_100 then (Inr 100, iqs269)
           else if sel = IQS269_CHx_ENG_B_ATI_BASE_150 then (Inr 150, iqs269)
           else if sel = IQS269_CHx_ENG_B_ATI_BASE_200 then (Inr 200, iqs269)
           else (Inl EINVAL, iqs269))"

text \<open>\<^verbatim>\<open>iqs269_ati_target_set\<close> (lines 478-501).\<close>

definition iqs269_ati_target_set ::
  "iqs269_private \<Rightarrow> u32 \<Rightarrow> u32 \<Rightarrow> (errno + unit) \<times> iqs269_private" where
  "iqs269_ati_target_set iqs269 ch target =
     (if unat ch \<ge> IQS269_NUM_CH then (Inl EINVAL, iqs269)
      else if target > IQS269_CHx_ENG_B_ATI_TARGET_MAX then (Inl EINVAL, iqs269)
      else
        let chs = ch_reg (sys_reg iqs269);
            eb0 = be16_to_cpu (engine_b (chs ! unat ch));
            eb1 = eb0 AND NOT IQS269_CHx_ENG_B_ATI_TARGET_MASK;
            eb2 = eb1 OR ucast (target div 32);
            chs' = chs[unat ch := (chs ! unat ch)\<lparr>engine_b := cpu_to_be16 eb2\<rparr>]
        in (Inr (), iqs269\<lparr>sys_reg := (sys_reg iqs269)\<lparr>ch_reg := chs'\<rparr>,
                           ati_current := False\<rparr>))"

text \<open>\<^verbatim>\<open>iqs269_ati_target_get\<close> (lines 503-518).\<close>

definition iqs269_ati_target_get ::
  "iqs269_private \<Rightarrow> u32 \<Rightarrow> (errno + u32) \<times> iqs269_private" where
  "iqs269_ati_target_get iqs269 ch =
     (if unat ch \<ge> IQS269_NUM_CH then (Inl EINVAL, iqs269)
      else
        let chs = ch_reg (sys_reg iqs269);
            eb = be16_to_cpu (engine_b (chs ! unat ch))
        in (Inr (ucast (eb AND IQS269_CHx_ENG_B_ATI_TARGET_MASK) * 32), iqs269))"

subsection \<open>The event table and the slider modes\<close>

record iqs269_event_desc =
  ev_name :: string
  st_offs :: nat
  th_offs :: nat
  dir_up :: bool
  ev_mask :: u8

definition IQS269_ST_OFFS_PROX :: nat where "IQS269_ST_OFFS_PROX = 0"
definition IQS269_ST_OFFS_DIR :: nat where "IQS269_ST_OFFS_DIR = 1"
definition IQS269_ST_OFFS_TOUCH :: nat where "IQS269_ST_OFFS_TOUCH = 2"
definition IQS269_ST_OFFS_DEEP :: nat where "IQS269_ST_OFFS_DEEP = 3"

definition IQS269_TH_OFFS_PROX :: nat where "IQS269_TH_OFFS_PROX = 0"
definition IQS269_TH_OFFS_TOUCH :: nat where "IQS269_TH_OFFS_TOUCH = 1"
definition IQS269_TH_OFFS_DEEP :: nat where "IQS269_TH_OFFS_DEEP = 2"

definition IQS269_EVENT_TOUCH_DN :: nat where "IQS269_EVENT_TOUCH_DN = 2"
definition IQS269_EVENT_TOUCH_UP :: nat where "IQS269_EVENT_TOUCH_UP = 3"
definition IQS269_EVENT_DEEP_DN :: nat where "IQS269_EVENT_DEEP_DN = 4"
definition IQS269_EVENT_DEEP_UP :: nat where "IQS269_EVENT_DEEP_UP = 5"

definition IQS269_GESTURE_TAP :: nat where "IQS269_GESTURE_TAP = 0"
definition IQS269_GESTURE_HOLD :: nat where "IQS269_GESTURE_HOLD = 1"
definition IQS269_GESTURE_FLICK_POS :: nat where "IQS269_GESTURE_FLICK_POS = 2"
definition IQS269_GESTURE_FLICK_NEG :: nat where "IQS269_GESTURE_FLICK_NEG = 3"

text \<open>\<^verbatim>\<open>iqs269_events[]\<close> (lines 223-263), in the order of \<^verbatim>\<open>enum iqs269_event_id\<close>.\<close>

definition iqs269_events :: "iqs269_event_desc list" where
  "iqs269_events =
     [\<lparr>ev_name = ''event-prox'', st_offs = IQS269_ST_OFFS_PROX,
       th_offs = IQS269_TH_OFFS_PROX, dir_up = False, ev_mask = IQS269_EVENT_MASK_PROX\<rparr>,
      \<lparr>ev_name = ''event-prox-alt'', st_offs = IQS269_ST_OFFS_PROX,
       th_offs = IQS269_TH_OFFS_PROX, dir_up = True, ev_mask = IQS269_EVENT_MASK_PROX\<rparr>,
      \<lparr>ev_name = ''event-touch'', st_offs = IQS269_ST_OFFS_TOUCH,
       th_offs = IQS269_TH_OFFS_TOUCH, dir_up = False, ev_mask = IQS269_EVENT_MASK_TOUCH\<rparr>,
      \<lparr>ev_name = ''event-touch-alt'', st_offs = IQS269_ST_OFFS_TOUCH,
       th_offs = IQS269_TH_OFFS_TOUCH, dir_up = True, ev_mask = IQS269_EVENT_MASK_TOUCH\<rparr>,
      \<lparr>ev_name = ''event-deep'', st_offs = IQS269_ST_OFFS_DEEP,
       th_offs = IQS269_TH_OFFS_DEEP, dir_up = False, ev_mask = IQS269_EVENT_MASK_DEEP\<rparr>,
      \<lparr>ev_name = ''event-deep-alt'', st_offs = IQS269_ST_OFFS_DEEP,
       th_offs = IQS269_TH_OFFS_DEEP, dir_up = True, ev_mask = IQS269_EVENT_MASK_DEEP\<rparr>]"

datatype iqs269_slider_id = IQS269_SLIDER_NONE | IQS269_SLIDER_KEY | IQS269_SLIDER_RAW

text \<open>\<^verbatim>\<open>iqs269_slider_type\<close> (lines 333-354).\<close>

definition iqs269_slider_type :: "iqs269_private \<Rightarrow> nat \<Rightarrow> iqs269_slider_id" where
  "iqs269_slider_type iqs269 slider_num =
     (if slider_num \<noteq> 0 \<and> otp_option iqs269 AND IQS269_OTP_OPTION_HOLD \<noteq> 0
      then IQS269_SLIDER_NONE
      else if slider_select (sys_reg iqs269) ! slider_num = 0 then IQS269_SLIDER_NONE
      else if list_ex (\<lambda>i. sl_code iqs269 ! slider_num ! i \<noteq> KEY_RESERVED)
                [0..<IQS269_NUM_GESTURES]
      then IQS269_SLIDER_KEY
      else IQS269_SLIDER_RAW)"

subsection \<open>The configuration source\<close>

text \<open>
  Modelled from the spec: the firmware-node property interface
  (\<^verbatim>\<open>fwnode_property_present\<close>, \<^verbatim>\<open>fwnode_property_count_u32\<close>,
  \<^verbatim>\<open>fwnode_property_read_u32_array\<close>, \<^verbatim>\<open>fwnode_property_read_u32\<close>,
  \<^verbatim>\<open>fwnode_get_named_child_node\<close>), which the driver calls and does not define. The
  specification describes it as named boolean-presence and typed scalar or array lookups:
  a node maps a property name to an array of 32-bit values (empty for a boolean
  property) and a child name to a node. A lookup of an absent property fails with
  \<^verbatim>\<open>-EINVAL\<close>, a read of more values than the property holds with \<^verbatim>\<open>-EOVERFLOW\<close>.
\<close>

datatype fwnode_handle =
  Fwnode (fw_props: "(string \<times> u32 list) list") (fw_children: "(string \<times> fwnode_handle) list")

definition fwnode_property_present :: "fwnode_handle \<Rightarrow> string \<Rightarrow> bool" where
  "fwnode_property_present fwnode propname \<longleftrightarrow> map_of (fw_props fwnode) propname \<noteq> None"

definition fwnode_property_count_u32 :: "fwnode_handle \<Rightarrow> string \<Rightarrow> errno + nat" where
  "fwnode_property_count_u32 fwnode propname =
     (case map_of (fw_props fwnode) propname of
        None \<Rightarrow> Inl EINVAL
      | Some vs \<Rightarrow> Inr (length vs))"

definition fwnode_property_read_u32_array ::
  "fwnode_handle \<Rightarrow> string \<Rightarrow> nat \<Rightarrow> errno + u32 list" where
  "fwnode_property_read_u32_array fwnode propname nval =
     (case map_of (fw_props fwnode) propname of
        None \<Rightarrow> Inl EINVAL
      | Some vs \<Rightarrow> if length vs < nval then Inl EOVERFLOW else Inr (take nval vs))"

definition fwnode_property_read_u32 :: "fwnode_handle \<Rightarrow> string \<Rightarrow> errno + u32" where
  "fwnode_property_read_u32 fwnode propname =
     (case fwnode_property_read_u32_array fwnode propname 1 of
        Inl e \<Rightarrow> Inl e
      | Inr vs \<Rightarrow> Inr (hd vs))"

definition fwnode_get_named_child_node :: "fwnode_handle \<Rightarrow> string \<Rightarrow> fwnode_handle option" where
  "fwnode_get_named_child_node fwnode childname = map_of (fw_children fwnode) childname"

subsection \<open>Channel configuration\<close>

text \<open>
  \<^verbatim>\<open>iqs269_parse_mask\<close> (lines 520-547). The function returns its code and leaves the
  mask in \<^verbatim>\<open>*mask\<close>; a negative count (an absent property) returns 0 and does not touch
  \<^verbatim>\<open>*mask\<close>. The loop stops at the first index that is not a channel, with the bits of the
  earlier entries already set.
\<close>

fun iqs269_parse_mask_loop :: "u32 list \<Rightarrow> u8 \<Rightarrow> (errno + unit) \<times> u8" where
  "iqs269_parse_mask_loop [] mask' = (Inr (), mask')"
| "iqs269_parse_mask_loop (v # val) mask' =
     (if unat v \<ge> IQS269_NUM_CH then (Inl EINVAL, mask')
      else iqs269_parse_mask_loop val (mask' OR BIT8 (unat v)))"

definition iqs269_parse_mask :: "fwnode_handle \<Rightarrow> string \<Rightarrow> u8 \<Rightarrow> (errno + unit) \<times> u8" where
  "iqs269_parse_mask fwnode propname mask' =
     (case fwnode_property_count_u32 fwnode propname of
        Inl _ \<Rightarrow> (Inr (), mask')
      | Inr count \<Rightarrow>
          if count > IQS269_NUM_CH then (Inl EINVAL, mask')
          else (case fwnode_property_read_u32_array fwnode propname count of
                  Inl error \<Rightarrow> (Inl error, mask')
                | Inr val \<Rightarrow> iqs269_parse_mask_loop val 0))"

text \<open>
  The mask the specification asks of a pin list, "the bitwise OR of \<^verbatim>\<open>BIT(index)\<close> over
  all entries", written from its words to compare \<^verbatim>\<open>iqs269_parse_mask\<close> with.
\<close>

definition or_of_bits :: "u32 list \<Rightarrow> u8" where
  "or_of_bits val = foldr (\<lambda>v acc. BIT8 (unat v) OR acc) val 0"

text \<open>Steps that return a code and the updated structure, run until the first error.\<close>

fun iqs269_seq :: "('s \<Rightarrow> (errno + unit) \<times> 's) list \<Rightarrow> 's \<Rightarrow> (errno + unit) \<times> 's" where
  "iqs269_seq [] s = (Inr (), s)"
| "iqs269_seq (f # fs) s =
     (case f s of
        (Inl error, s') \<Rightarrow> (Inl error, s')
      | (Inr _, s') \<Rightarrow> iqs269_seq fs s')"

text \<open>An assignment through \<^verbatim>\<open>ch_reg = &iqs269->sys_reg.ch_reg[reg]\<close>.\<close>

definition iqs269_ch_update ::
  "nat \<Rightarrow> (iqs269_ch_reg \<Rightarrow> iqs269_ch_reg) \<Rightarrow> iqs269_private \<Rightarrow> iqs269_private" where
  "iqs269_ch_update reg f iqs269 =
     iqs269\<lparr>sys_reg := (sys_reg iqs269)
       \<lparr>ch_reg := (ch_reg (sys_reg iqs269))[reg := f (ch_reg (sys_reg iqs269) ! reg)]\<rparr>\<rparr>"

text \<open>Lines 568-580 of \<^verbatim>\<open>iqs269_parse_chan\<close>: the masks indexed by channel.\<close>

definition iqs269_parse_chan_select ::
  "fwnode_handle \<Rightarrow> nat \<Rightarrow> iqs269_private \<Rightarrow> (errno + unit) \<times> iqs269_private" where
  "iqs269_parse_chan_select ch_node reg iqs269 =
     (let r0 = sys_reg iqs269;
          r1 = r0\<lparr>active := active r0 OR BIT8 reg\<rparr>;
          r2 = (if \<not> fwnode_property_present ch_node ''azoteq,reseed-disable''
                then r1\<lparr>reseed := reseed r1 OR BIT8 reg\<rparr> else r1);
          r3 = (if fwnode_property_present ch_node ''azoteq,blocking-enable''
                then r2\<lparr>blocking := blocking r2 OR BIT8 reg\<rparr> else r2);
          r4 = (if fwnode_property_present ch_node ''azoteq,slider0-select''
                then r3\<lparr>slider_select :=
                          (slider_select r3)[0 := slider_select r3 ! 0 OR BIT8 reg]\<rparr>
                else r3);
          r5 = (if fwnode_property_present ch_node ''azoteq,slider1-select'' \<and>
                   otp_option iqs269 AND IQS269_OTP_OPTION_HOLD = 0
                then r4\<lparr>slider_select :=
                          (slider_select r4)[1 := slider_select r4 ! 1 OR BIT8 reg]\<rparr>
                else r4)
      in (Inr (), iqs269\<lparr>sys_reg := r5\<rparr>))"

text \<open>Lines 582-598: the RX and TX enable masks.\<close>

definition iqs269_parse_chan_rx_tx ::
  "fwnode_handle \<Rightarrow> nat \<Rightarrow> iqs269_private \<Rightarrow> (errno + unit) \<times> iqs269_private" where
  "iqs269_parse_chan_rx_tx ch_node reg iqs269 =
     (case iqs269_parse_mask ch_node ''azoteq,rx-enable''
             (rx_enable (ch_reg (sys_reg iqs269) ! reg)) of
        (Inl error, m) \<Rightarrow> (Inl error, iqs269_ch_update reg (\<lambda>c. c\<lparr>rx_enable := m\<rparr>) iqs269)
      | (Inr _, m) \<Rightarrow>
          let s1 = iqs269_ch_update reg (\<lambda>c. c\<lparr>rx_enable := m\<rparr>) iqs269
          in (case iqs269_parse_mask ch_node ''azoteq,tx-enable''
                     (tx_enable (ch_reg (sys_reg s1) ! reg)) of
                (r, m') \<Rightarrow> (r, iqs269_ch_update reg (\<lambda>c. c\<lparr>tx_enable := m'\<rparr>) s1)))"

text \<open>
  Lines 600-677: the two engine words are edited in the locals \<^verbatim>\<open>engine_a\<close> and
  \<^verbatim>\<open>engine_b\<close>. The \<^verbatim>\<open>switch\<close> on the local capacitance size falls through from
  \<^verbatim>\<open>IQS269_LOCAL_CAP_SIZE_GLOBAL_0pF5\<close> (2) to \<^verbatim>\<open>IQS269_LOCAL_CAP_SIZE_GLOBAL_ONLY\<close> (1).
\<close>

definition iqs269_parse_chan_engine_words ::
  "fwnode_handle \<Rightarrow> u16 \<Rightarrow> u16 \<Rightarrow> errno + u16 \<times> u16" where
  "iqs269_parse_chan_engine_words ch_node a0 b0 =
     (let a1 = a0 OR IQS269_CHx_ENG_A_MEAS_CAP_SIZE;
          a2 = (if fwnode_property_present ch_node ''azoteq,meas-cap-decrease''
                then a1 AND NOT IQS269_CHx_ENG_A_MEAS_CAP_SIZE else a1);
          a3 = a2 OR IQS269_CHx_ENG_A_RX_GND_INACTIVE;
          a4 = (if fwnode_property_present ch_node ''azoteq,rx-float-inactive''
                then a3 AND NOT IQS269_CHx_ENG_A_RX_GND_INACTIVE else a3);
          a5 = a4 AND NOT IQS269_CHx_ENG_A_LOCAL_CAP_SIZE;
          b1 = b0 AND NOT IQS269_CHx_ENG_B_LOCAL_CAP_ENABLE;
          cap = (case fwnode_property_read_u32 ch_node ''azoteq,local-cap-size'' of
                   Inl _ \<Rightarrow> Inr (a5, b1)
                 | Inr val \<Rightarrow>
                     if val = 0 then Inr (a5, b1)
                     else if val = 2
                     then Inr (a5 OR IQS269_CHx_ENG_A_LOCAL_CAP_SIZE,
                               b1 OR IQS269_CHx_ENG_B_LOCAL_CAP_ENABLE)
                     else if val = 1 then Inr (a5, b1 OR IQS269_CHx_ENG_B_LOCAL_CAP_ENABLE)
                     else Inl EINVAL)
      in case cap of
        Inl error \<Rightarrow> Inl error
      | Inr (a6, b2) \<Rightarrow>
        let a7 = a6 AND NOT IQS269_CHx_ENG_A_INV_LOGIC;
            a8 = (if fwnode_property_present ch_node ''azoteq,invert-enable''
                  then a7 OR IQS269_CHx_ENG_A_INV_LOGIC else a7);
            bias = (case fwnode_property_read_u32 ch_node ''azoteq,proj-bias'' of
                      Inl _ \<Rightarrow> Inr a8
                    | Inr val \<Rightarrow>
                        if val > IQS269_CHx_ENG_A_PROJ_BIAS_MAX then Inl EINVAL
                        else Inr (a8 AND NOT IQS269_CHx_ENG_A_PROJ_BIAS_MASK
                                  OR ucast (push_bit IQS269_CHx_ENG_A_PROJ_BIAS_SHIFT val)))
        in case bias of
          Inl error \<Rightarrow> Inl error
        | Inr a9 \<Rightarrow>
          let smode = (case fwnode_property_read_u32 ch_node ''azoteq,sense-mode'' of
                         Inl _ \<Rightarrow> Inr a9
                       | Inr val \<Rightarrow>
                           if val > IQS269_CHx_ENG_A_SENSE_MODE_MAX then Inl EINVAL
                           else Inr (a9 AND NOT IQS269_CHx_ENG_A_SENSE_MODE_MASK OR ucast val))
          in case smode of
            Inl error \<Rightarrow> Inl error
          | Inr a10 \<Rightarrow>
            let sfreq = (case fwnode_property_read_u32 ch_node ''azoteq,sense-freq'' of
                           Inl _ \<Rightarrow> Inr b2
                         | Inr val \<Rightarrow>
                             if val > IQS269_CHx_ENG_B_SENSE_FREQ_MAX then Inl EINVAL
                             else Inr (b2 AND NOT IQS269_CHx_ENG_B_SENSE_FREQ_MASK
                                 OR ucast (push_bit IQS269_CHx_ENG_B_SENSE_FREQ_SHIFT val)))
            in case sfreq of
              Inl error \<Rightarrow> Inl error
            | Inr b3 \<Rightarrow>
              let b4 = b3 AND NOT IQS269_CHx_ENG_B_STATIC_ENABLE;
                  b5 = (if fwnode_property_present ch_node ''azoteq,static-enable''
                        then b4 OR IQS269_CHx_ENG_B_STATIC_ENABLE else b4)
              in Inr (a10, b5))"

text \<open>
  Lines 600-679: the locals are loaded from the channel and stored at the end, so an
  error in between leaves the channel's words as they were.
\<close>

definition iqs269_parse_chan_engine ::
  "fwnode_handle \<Rightarrow> nat \<Rightarrow> iqs269_private \<Rightarrow> (errno + unit) \<times> iqs269_private" where
  "iqs269_parse_chan_engine ch_node reg iqs269 =
     (case iqs269_parse_chan_engine_words ch_node
             (be16_to_cpu (engine_a (ch_reg (sys_reg iqs269) ! reg)))
             (be16_to_cpu (engine_b (ch_reg (sys_reg iqs269) ! reg))) of
        Inl error \<Rightarrow> (Inl error, iqs269)
      | Inr (a, b) \<Rightarrow>
          (Inr (), iqs269_ch_update reg
                     (\<lambda>c. c\<lparr>engine_a := cpu_to_be16 a, engine_b := cpu_to_be16 b\<rparr>) iqs269))"

text \<open>Lines 681-707: the ATI overrides go through the accessors of the attributes.\<close>

definition iqs269_parse_chan_ati ::
  "fwnode_handle \<Rightarrow> u32 \<Rightarrow> iqs269_private \<Rightarrow> (errno + unit) \<times> iqs269_private" where
  "iqs269_parse_chan_ati ch_node reg =
     iqs269_seq
       [\<lambda>s. case fwnode_property_read_u32 ch_node ''azoteq,ati-mode'' of
               Inl _ \<Rightarrow> (Inr (), s) | Inr val \<Rightarrow> iqs269_ati_mode_set s reg val,
        \<lambda>s. case fwnode_property_read_u32 ch_node ''azoteq,ati-base'' of
               Inl _ \<Rightarrow> (Inr (), s) | Inr val \<Rightarrow> iqs269_ati_base_set s reg val,
        \<lambda>s. case fwnode_property_read_u32 ch_node ''azoteq,ati-target'' of
               Inl _ \<Rightarrow> (Inr (), s) | Inr val \<Rightarrow> iqs269_ati_target_set s reg val]"

text \<open>Lines 709-726: the association mask and weight.\<close>

definition iqs269_parse_chan_assoc ::
  "fwnode_handle \<Rightarrow> nat \<Rightarrow> iqs269_private \<Rightarrow> (errno + unit) \<times> iqs269_private" where
  "iqs269_parse_chan_assoc ch_node reg iqs269 =
     (case iqs269_parse_mask ch_node ''azoteq,assoc-select''
             (assoc_select (ch_reg (sys_reg iqs269) ! reg)) of
        (Inl error, m) \<Rightarrow> (Inl error, iqs269_ch_update reg (\<lambda>c. c\<lparr>assoc_select := m\<rparr>) iqs269)
      | (Inr _, m) \<Rightarrow>
          let s1 = iqs269_ch_update reg (\<lambda>c. c\<lparr>assoc_select := m\<rparr>) iqs269
          in (case fwnode_property_read_u32 ch_node ''azoteq,assoc-weight'' of
                Inl _ \<Rightarrow> (Inr (), s1)
              | Inr val \<Rightarrow>
                  if val > IQS269_CHx_WEIGHT_MAX then (Inl EINVAL, s1)
                  else (Inr (), iqs269_ch_update reg (\<lambda>c. c\<lparr>assoc_weight := ucast val\<rparr>) s1)))"

text \<open>
  Lines 746-765: the hysteresis of event \<open>i\<close>. The byte is read, one nibble is cleared
  and the value is merged in; the proximity events have no hysteresis field and leave the
  byte alone.
\<close>

definition iqs269_parse_hyst :: "nat \<Rightarrow> u32 \<Rightarrow> u8 \<Rightarrow> errno + u8" where
  "iqs269_parse_hyst i val hyst0 =
     (if val > IQS269_CHx_HYST_MAX then Inl EINVAL
      else if i = IQS269_EVENT_DEEP_DN \<or> i = IQS269_EVENT_DEEP_UP
      then Inr (hyst0 AND NOT IQS269_CHx_HYST_DEEP_MASK
                OR ucast (push_bit IQS269_CHx_HYST_DEEP_SHIFT val))
      else if i = IQS269_EVENT_TOUCH_DN \<or> i = IQS269_EVENT_TOUCH_UP
      then Inr (hyst0 AND NOT IQS269_CHx_HYST_TOUCH_MASK OR ucast val)
      else Inr hyst0)"

text \<open>
  The same lines on the structure: \<^verbatim>\<open>hyst\<close> points to the hysteresis byte of channel
  \<open>reg\<close>, which is touched only if the event node has the property.
\<close>

definition iqs269_parse_chan_hyst ::
  "fwnode_handle \<Rightarrow> nat \<Rightarrow> nat \<Rightarrow> iqs269_private \<Rightarrow> (errno + unit) \<times> iqs269_private" where
  "iqs269_parse_chan_hyst ev_node reg i iqs269 =
     (case fwnode_property_read_u32 ev_node ''azoteq,hyst'' of
        Inl _ \<Rightarrow> (Inr (), iqs269)
      | Inr val \<Rightarrow>
          (case iqs269_parse_hyst i val (hyst (ch_reg (sys_reg iqs269) ! reg)) of
             Inl error \<Rightarrow> (Inl error, iqs269)
           | Inr h \<Rightarrow> (Inr (), iqs269_ch_update reg (\<lambda>c. c\<lparr>hyst := h\<rparr>) iqs269)))"

text \<open>
  Lines 767-794: the key or switch code of event \<open>i\<close>. The \<^verbatim>\<open>switch\<close> falls through from
  the active Hall channel to the inactive one and to the default case.
\<close>

definition iqs269_parse_code :: "nat \<Rightarrow> nat \<Rightarrow> u32 \<Rightarrow> iqs269_private \<Rightarrow> iqs269_private" where
  "iqs269_parse_code i reg val iqs269 =
     (let s1 = (if reg = IQS269_CHx_HALL_ACTIVE \<and> hall_enable iqs269
                then iqs269\<lparr>switches := (switches iqs269)
                       [i := \<lparr>sw_code = val, sw_enabled = True\<rparr>]\<rparr>
                else iqs269);
          s2 = (if (reg = IQS269_CHx_HALL_ACTIVE \<or> reg = IQS269_CHx_HALL_INACTIVE) \<and>
                   hall_enable iqs269
                then s1
                else s1\<lparr>keycode := (keycode s1)[i * IQS269_NUM_CH + reg := val]\<rparr>)
      in s2\<lparr>sys_reg := (sys_reg s2)
            \<lparr>event_mask := event_mask (sys_reg s2) AND NOT (ev_mask (iqs269_events ! i))\<rparr>\<rparr>)"

text \<open>Lines 729-794: one iteration of the loop over the event table.\<close>

definition iqs269_parse_chan_event ::
  "fwnode_handle \<Rightarrow> nat \<Rightarrow> nat \<Rightarrow> iqs269_private \<Rightarrow> (errno + unit) \<times> iqs269_private" where
  "iqs269_parse_chan_event ch_node reg i iqs269 =
     (case fwnode_get_named_child_node ch_node (ev_name (iqs269_events ! i)) of
        None \<Rightarrow> (Inr (), iqs269)
      | Some ev_node \<Rightarrow>
          iqs269_seq
            [\<lambda>s. case fwnode_property_read_u32 ev_node ''azoteq,thresh'' of
                    Inl _ \<Rightarrow> (Inr (), s)
                  | Inr val \<Rightarrow>
                      if val > IQS269_CHx_THRESH_MAX then (Inl EINVAL, s)
                      else (Inr (), iqs269_ch_update reg
                              (\<lambda>c. c\<lparr>thresh := (thresh c)
                                     [th_offs (iqs269_events ! i) := ucast val]\<rparr>) s),
             iqs269_parse_chan_hyst ev_node reg i,
             \<lambda>s. case fwnode_property_read_u32 ev_node ''linux,code'' of
                    Inl error \<Rightarrow> if error = EINVAL then (Inr (), s) else (Inl error, s)
                  | Inr val \<Rightarrow> (Inr (), iqs269_parse_code i reg val s)]
            iqs269)"

text \<open>\<^verbatim>\<open>iqs269_parse_chan\<close> (lines 549-798).\<close>

definition iqs269_parse_chan ::
  "iqs269_private \<Rightarrow> fwnode_handle \<Rightarrow> (errno + unit) \<times> iqs269_private" where
  "iqs269_parse_chan iqs269 ch_node =
     (case fwnode_property_read_u32 ch_node ''reg'' of
        Inl error \<Rightarrow> (Inl error, iqs269)
      | Inr reg \<Rightarrow>
          if unat reg \<ge> IQS269_NUM_CH then (Inl EINVAL, iqs269)
          else iqs269_seq
                 ([iqs269_parse_chan_select ch_node (unat reg),
                   iqs269_parse_chan_rx_tx ch_node (unat reg),
                   iqs269_parse_chan_engine ch_node (unat reg),
                   iqs269_parse_chan_ati ch_node reg,
                   iqs269_parse_chan_assoc ch_node (unat reg)] @
                  map (iqs269_parse_chan_event ch_node (unat reg)) [0..<length iqs269_events])
                 iqs269)"



subsection \<open>The bus and the input core\<close>

text \<open>
  The calls that leave the driver, in the order they are made: the register accesses
  through \<^verbatim>\<open>regmap\<close>, the delay, the events given to the input core and the completion.
  \<^verbatim>\<open>input_report_key\<close> and \<^verbatim>\<open>input_report_switch\<close> normalise their value with \<^verbatim>\<open>!!\<close>:
  it is a truth value here.
\<close>

datatype input_dev = Keypad | Slider nat

datatype effect =
    Regmap_multi_reg_write "(u32 \<times> u32) list"
  | Regmap_update_bits u32 u32 u32
  | Regmap_raw_write u32 iqs269_sys_reg
  | Regmap_raw_read u32
  | Usleep_range nat nat
  | Input_report_key input_dev u32 bool
  | Input_report_switch input_dev u32 bool
  | Input_report_abs input_dev u32 u8
  | Input_sync input_dev
  | Complete_all

text \<open>
  What the bus answers: the outcome of each write of \<^verbatim>\<open>iqs269_dev_init\<close>, the outcome,
  with the data, of each read of \<^verbatim>\<open>iqs269_report\<close>, and of the read of the register
  image at the start of \<^verbatim>\<open>iqs269_parse_prop\<close>.
\<close>

record iqs269_bus =
  bus_multi_reg_write :: "errno + unit"
  bus_update_bits :: "errno + unit"
  bus_raw_write :: "errno + unit"
  bus_read_flags :: "errno + iqs269_flags"
  bus_read_slider_x :: "errno + u8 list"
  bus_read_sys_settings :: "errno + iqs269_sys_reg"

subsection \<open>System configuration\<close>

definition device_property_present :: "fwnode_handle \<Rightarrow> string \<Rightarrow> bool" where
  "device_property_present dev propname = fwnode_property_present dev propname"

definition device_property_count_u32 :: "fwnode_handle \<Rightarrow> string \<Rightarrow> errno + nat" where
  "device_property_count_u32 dev propname = fwnode_property_count_u32 dev propname"

definition device_property_read_u32_array ::
  "fwnode_handle \<Rightarrow> string \<Rightarrow> nat \<Rightarrow> errno + u32 list" where
  "device_property_read_u32_array dev propname nval =
     fwnode_property_read_u32_array dev propname nval"

definition device_property_read_u32 :: "fwnode_handle \<Rightarrow> string \<Rightarrow> errno + u32" where
  "device_property_read_u32 dev propname = fwnode_property_read_u32 dev propname"

text \<open>
  Two shapes recur in \<^verbatim>\<open>iqs269_parse_prop\<close>. An optional integer property is read,
  refused with \<^verbatim>\<open>-EINVAL\<close> when out of range, and stored; a flag is cleared and set again
  if its boolean property is present.
\<close>

definition iqs269_u32_prop ::
  "fwnode_handle \<Rightarrow> string \<Rightarrow> (u32 \<Rightarrow> bool) \<Rightarrow> (u32 \<Rightarrow> 's \<Rightarrow> 's) \<Rightarrow> 's \<Rightarrow> (errno + unit) \<times> 's" where
  "iqs269_u32_prop dev propname invalid store s =
     (case device_property_read_u32 dev propname of
        Inl _ \<Rightarrow> (Inr (), s)
      | Inr val \<Rightarrow> if invalid val then (Inl EINVAL, s) else (Inr (), store val s))"

definition iqs269_flag_prop :: "fwnode_handle \<Rightarrow> string \<Rightarrow> u16 \<Rightarrow> u16 \<Rightarrow> u16" where
  "iqs269_flag_prop dev propname flag w =
     (if device_property_present dev propname then w AND NOT flag OR flag else w AND NOT flag)"

definition iqs269_sys_update ::
  "(iqs269_sys_reg \<Rightarrow> iqs269_sys_reg) \<Rightarrow> iqs269_private \<Rightarrow> iqs269_private" where
  "iqs269_sys_update f iqs269 = iqs269\<lparr>sys_reg := f (sys_reg iqs269)\<rparr>"

text \<open>Lines 816-862: the four filter strengths, merged into one byte.\<close>

definition iqs269_parse_prop_filter ::
  "fwnode_handle \<Rightarrow> iqs269_private \<Rightarrow> (errno + unit) \<times> iqs269_private" where
  "iqs269_parse_prop_filter dev =
     iqs269_seq
       [iqs269_u32_prop dev ''azoteq,filt-str-lp-lta'' (\<lambda>val. val > IQS269_FILT_STR_MAX)
          (\<lambda>val. iqs269_sys_update (\<lambda>r. r\<lparr>filter_str :=
             filter_str r AND NOT IQS269_FILT_STR_LP_LTA_MASK
               OR ucast (push_bit IQS269_FILT_STR_LP_LTA_SHIFT val)\<rparr>)),
        iqs269_u32_prop dev ''azoteq,filt-str-lp-cnt'' (\<lambda>val. val > IQS269_FILT_STR_MAX)
          (\<lambda>val. iqs269_sys_update (\<lambda>r. r\<lparr>filter_str :=
             filter_str r AND NOT IQS269_FILT_STR_LP_CNT_MASK
               OR ucast (push_bit IQS269_FILT_STR_LP_CNT_SHIFT val)\<rparr>)),
        iqs269_u32_prop dev ''azoteq,filt-str-np-lta'' (\<lambda>val. val > IQS269_FILT_STR_MAX)
          (\<lambda>val. iqs269_sys_update (\<lambda>r. r\<lparr>filter_str :=
             filter_str r AND NOT IQS269_FILT_STR_NP_LTA_MASK
               OR ucast (push_bit IQS269_FILT_STR_NP_LTA_SHIFT val)\<rparr>)),
        iqs269_u32_prop dev ''azoteq,filt-str-np-cnt'' (\<lambda>val. val > IQS269_FILT_STR_MAX)
          (\<lambda>val. iqs269_sys_update (\<lambda>r. r\<lparr>filter_str :=
             filter_str r AND NOT IQS269_FILT_STR_NP_CNT_MASK OR ucast val\<rparr>))]"

text \<open>Lines 864-912: report rates and timeouts, in milliseconds.\<close>

definition iqs269_parse_prop_rates ::
  "fwnode_handle \<Rightarrow> iqs269_private \<Rightarrow> (errno + unit) \<times> iqs269_private" where
  "iqs269_parse_prop_rates dev =
     iqs269_seq
       [iqs269_u32_prop dev ''azoteq,rate-np-ms'' (\<lambda>val. val > IQS269_RATE_NP_MS_MAX)
          (\<lambda>val. iqs269_sys_update (\<lambda>r. r\<lparr>rate_np := ucast val\<rparr>)),
        iqs269_u32_prop dev ''azoteq,rate-lp-ms'' (\<lambda>val. val > IQS269_RATE_LP_MS_MAX)
          (\<lambda>val. iqs269_sys_update (\<lambda>r. r\<lparr>rate_lp := ucast val\<rparr>)),
        iqs269_u32_prop dev ''azoteq,rate-ulp-ms'' (\<lambda>val. val > IQS269_RATE_ULP_MS_MAX)
          (\<lambda>val. iqs269_sys_update (\<lambda>r. r\<lparr>rate_ulp := ucast (val div 16)\<rparr>)),
        iqs269_u32_prop dev ''azoteq,timeout-pwr-ms'' (\<lambda>val. val > IQS269_TIMEOUT_PWR_MS_MAX)
          (\<lambda>val. iqs269_sys_update (\<lambda>r. r\<lparr>timeout_pwr := ucast (val div 512)\<rparr>)),
        iqs269_u32_prop dev ''azoteq,timeout-lta-ms'' (\<lambda>val. val > IQS269_TIMEOUT_LTA_MS_MAX)
          (\<lambda>val. iqs269_sys_update (\<lambda>r. r\<lparr>timeout_lta := ucast (val div 512)\<rparr>))]"

text \<open>
  Lines 917-990: the two miscellaneous words are edited in the locals \<^verbatim>\<open>misc_a\<close> and
  \<^verbatim>\<open>misc_b\<close>.
\<close>

definition iqs269_parse_prop_misc_words ::
  "fwnode_handle \<Rightarrow> u16 \<times> u16 \<Rightarrow> (errno + unit) \<times> u16 \<times> u16" where
  "iqs269_parse_prop_misc_words dev =
     iqs269_seq
       [\<lambda>(a, b). (Inr (),
           (iqs269_flag_prop dev ''azoteq,filt-disable'' IQS269_MISC_A_FILT_DISABLE
             (iqs269_flag_prop dev ''azoteq,ati-band-tighten'' IQS269_MISC_A_ATI_BAND_TIGHTEN
               (iqs269_flag_prop dev ''azoteq,ati-lp-only'' IQS269_MISC_A_ATI_LP_ONLY
                 (iqs269_flag_prop dev ''azoteq,ati-band-disable''
                    IQS269_MISC_A_ATI_BAND_DISABLE a))), b)),
        iqs269_u32_prop dev ''azoteq,gpio3-select'' (\<lambda>val. unat val \<ge> IQS269_NUM_CH)
          (\<lambda>val (a, b). (a AND NOT IQS269_MISC_A_GPIO3_SELECT_MASK
              OR ucast (push_bit IQS269_MISC_A_GPIO3_SELECT_SHIFT val), b)),
        \<lambda>(a, b). (Inr (),
           (iqs269_flag_prop dev ''azoteq,dual-direction'' IQS269_MISC_A_DUAL_DIR a, b)),
        iqs269_u32_prop dev ''azoteq,tx-freq'' (\<lambda>val. val > IQS269_MISC_A_TX_FREQ_MAX)
          (\<lambda>val (a, b). (a AND NOT IQS269_MISC_A_TX_FREQ_MASK
              OR ucast (push_bit IQS269_MISC_A_TX_FREQ_SHIFT val), b)),
        \<lambda>(a, b). (Inr (),
           (iqs269_flag_prop dev ''azoteq,global-cap-increase''
              IQS269_MISC_A_GLOBAL_CAP_SIZE a, b)),
        iqs269_u32_prop dev ''azoteq,reseed-select''
          (\<lambda>val. val > IQS269_MISC_B_RESEED_UI_SEL_MAX)
          (\<lambda>val (a, b). (a, b AND NOT IQS269_MISC_B_RESEED_UI_SEL_MASK
              OR ucast (push_bit IQS269_MISC_B_RESEED_UI_SEL_SHIFT val))),
        \<lambda>(a, b). (Inr (),
           (a, iqs269_flag_prop dev ''azoteq,tracking-enable''
                 IQS269_MISC_B_TRACKING_UI_ENABLE b)),
        iqs269_u32_prop dev ''azoteq,filt-str-slider'' (\<lambda>val. val > IQS269_FILT_STR_MAX)
          (\<lambda>val (a, b). (a, b AND NOT IQS269_MISC_B_FILT_STR_SLIDER OR ucast val))]"

text \<open>
  Lines 914-993: the locals are loaded from the image and stored at the end; an error in
  between returns before the store.
\<close>

definition iqs269_parse_prop_misc ::
  "fwnode_handle \<Rightarrow> iqs269_private \<Rightarrow> (errno + unit) \<times> iqs269_private" where
  "iqs269_parse_prop_misc dev iqs269 =
     (case iqs269_parse_prop_misc_words dev
             (be16_to_cpu (misc_a (sys_reg iqs269)), be16_to_cpu (misc_b (sys_reg iqs269))) of
        (Inl error, _) \<Rightarrow> (Inl error, iqs269)
      | (Inr _, (a, b)) \<Rightarrow>
          (Inr (), iqs269_sys_update
                     (\<lambda>r. r\<lparr>misc_a := cpu_to_be16 a, misc_b := cpu_to_be16 b\<rparr>) iqs269))"

text \<open>
  Lines 995-1039: the masks that \<^verbatim>\<open>iqs269_parse_chan\<close> fills are cleared. With the
  touch-and-hold option, the selection byte of slider 1 holds the timer ceiling; without
  the property it keeps what the device returned, except on early firmware, where the
  default is stored.
\<close>

definition iqs269_parse_prop_select ::
  "fwnode_handle \<Rightarrow> iqs269_private \<Rightarrow> (errno + unit) \<times> iqs269_private" where
  "iqs269_parse_prop_select dev iqs269 =
     (let s1 = iqs269_sys_update
                 (\<lambda>r. r\<lparr>active := 0, reseed := 0, blocking := 0,
                         slider_select := (slider_select r)[0 := 0]\<rparr>) iqs269;
          hold = (if otp_option s1 AND IQS269_OTP_OPTION_HOLD \<noteq> 0
                  then (case device_property_read_u32 dev ''azoteq,touch-hold-ms'' of
                          Inr val \<Rightarrow>
                            if val < IQS269_TOUCH_HOLD_MS_MIN \<or> val > IQS269_TOUCH_HOLD_MS_MAX
                            then (Inl EINVAL, s1)
                            else (Inr (), iqs269_sys_update
                                    (\<lambda>r. r\<lparr>slider_select :=
                                       (slider_select r)[1 := ucast (val div 256)]\<rparr>) s1)
                        | Inl _ \<Rightarrow>
                            if fw_num (ver_info s1) < IQS269_VER_INFO_FW_NUM_3
                            then (Inr (), iqs269_sys_update
                                    (\<lambda>r. r\<lparr>slider_select :=
                                       (slider_select r)[1 := ucast IQS269_TOUCH_HOLD_DEFAULT]\<rparr>)
                                    s1)
                            else (Inr (), s1))
                  else (Inr (), iqs269_sys_update
                          (\<lambda>r. r\<lparr>slider_select := (slider_select r)[1 := 0]\<rparr>) s1))
      in case hold of
        (Inl error, s2) \<Rightarrow> (Inl error, s2)
      | (Inr _, s2) \<Rightarrow>
          (Inr (), iqs269_sys_update (\<lambda>r. r\<lparr>event_mask := NOT IQS269_EVENT_MASK_SYS\<rparr>) s2))"

text \<open>
  Lines 1041-1051: every child node of the device is a channel; afterwards all active
  channels take part in a manual ATI.
\<close>

definition iqs269_parse_prop_channels ::
  "fwnode_handle \<Rightarrow> iqs269_private \<Rightarrow> (errno + unit) \<times> iqs269_private" where
  "iqs269_parse_prop_channels dev iqs269 =
     (case iqs269_seq (map (\<lambda>ch_node s. iqs269_parse_chan s ch_node) (map snd (fw_children dev)))
             iqs269 of
        (Inl error, s1) \<Rightarrow> (Inl error, s1)
      | (Inr _, s1) \<Rightarrow> (Inr (), iqs269_sys_update (\<lambda>r. r\<lparr>redo_ati := active r\<rparr>) s1))"

text \<open>
  Lines 1053-1087: the general settings word is edited in the local \<^verbatim>\<open>general\<close>, which
  leaves this block with the code.
\<close>

definition iqs269_parse_prop_general :: "fwnode_handle \<Rightarrow> iqs269_private \<Rightarrow> errno + u16" where
  "iqs269_parse_prop_general dev iqs269 =
     (let g0 = be16_to_cpu (general (sys_reg iqs269));
          g1 = (if device_property_present dev ''azoteq,clk-div''
                then g0 OR IQS269_SYS_SETTINGS_CLK_DIV else g0);
          g2 = g1 AND NOT IQS269_SYS_SETTINGS_ULP_AUTO;
          g3 = g2 AND NOT IQS269_SYS_SETTINGS_DIS_AUTO;
          g4 = g3 AND NOT IQS269_SYS_SETTINGS_PWR_MODE_MASK
      in case iqs269_seq
                [iqs269_u32_prop dev ''azoteq,suspend-mode''
                   (\<lambda>val. val > IQS269_SYS_SETTINGS_PWR_MODE_MAX)
                   (\<lambda>val g. g OR ucast (push_bit IQS269_SYS_SETTINGS_PWR_MODE_SHIFT val)),
                 iqs269_u32_prop dev ''azoteq,ulp-update''
                   (\<lambda>val. val > IQS269_SYS_SETTINGS_ULP_UPDATE_MAX)
                   (\<lambda>val g. g AND NOT IQS269_SYS_SETTINGS_ULP_UPDATE_MASK
                      OR ucast (push_bit IQS269_SYS_SETTINGS_ULP_UPDATE_SHIFT val))]
                g4 of
        (Inl error, _) \<Rightarrow> Inl error
      | (Inr _, g) \<Rightarrow> Inr g)"

text \<open>
  The read of \<^verbatim>\<open>linux,keycodes\<close> into \<^verbatim>\<open>*iqs269->sl_code\<close> (lines 1102-1104) fills the
  first entries of the two rows of four codes, which are contiguous in memory.
\<close>

definition iqs269_store_sl_code :: "u32 list \<Rightarrow> u32 list list \<Rightarrow> u32 list list" where
  "iqs269_store_sl_code codes rows =
     (let flat = codes @ drop (length codes) (concat rows)
      in [take IQS269_NUM_GESTURES flat, drop IQS269_NUM_GESTURES flat])"

text \<open>
  Lines 1089-1157 of \<^verbatim>\<open>iqs269_parse_prop\<close>: the block guarded by the presence of
  \<^verbatim>\<open>linux,keycodes\<close>. \<^verbatim>\<open>general\<close> is the local copy of the general settings word, which
  the function stores after this block; the block returns it with its code.
\<close>

definition iqs269_parse_prop_keycodes ::
  "fwnode_handle \<Rightarrow> u16 \<Rightarrow> iqs269_private \<Rightarrow> (errno + u16) \<times> iqs269_private" where
  "iqs269_parse_prop_keycodes dev general0 iqs269 =
     (if \<not> device_property_present dev ''linux,keycodes'' then (Inr general0, iqs269)
      else case device_property_count_u32 dev ''linux,keycodes'' of
        Inl error \<Rightarrow> (Inl error, iqs269)
      | Inr count \<Rightarrow>
        if count > IQS269_NUM_GESTURES * IQS269_NUM_SL then (Inl EINVAL, iqs269)
        else case device_property_read_u32_array dev ''linux,keycodes'' count of
          Inl error \<Rightarrow> (Inl error, iqs269)
        | Inr codes \<Rightarrow>
          let s1 = iqs269\<lparr>sl_code := iqs269_store_sl_code codes (sl_code iqs269)\<rparr>;
              general1 = (if device_property_present dev ''azoteq,gesture-swipe''
                          then general0 OR IQS269_SYS_SETTINGS_SLIDER_SWIPE else general0);
              scale = (if fw_num (ver_info s1) < IQS269_VER_INFO_FW_NUM_3 then 4 else 1 :: u32)
          in case iqs269_seq
               [\<lambda>s. case device_property_read_u32 dev ''azoteq,timeout-tap-ms'' of
                       Inl _ \<Rightarrow> (Inr (), s)
                     | Inr val \<Rightarrow>
                         if val > IQS269_TIMEOUT_TAP_MS_MAX div scale then (Inl EINVAL, s)
                         else (Inr (), s\<lparr>sys_reg := (sys_reg s)
                                 \<lparr>timeout_tap := ucast (val div (16 div scale))\<rparr>\<rparr>),
                \<lambda>s. case device_property_read_u32 dev ''azoteq,timeout-swipe-ms'' of
                       Inl _ \<Rightarrow> (Inr (), s)
                     | Inr val \<Rightarrow>
                         if val > IQS269_TIMEOUT_SWIPE_MS_MAX div scale then (Inl EINVAL, s)
                         else (Inr (), s\<lparr>sys_reg := (sys_reg s)
                                 \<lparr>timeout_swipe := ucast (val div (16 div scale))\<rparr>\<rparr>),
                \<lambda>s. case device_property_read_u32 dev ''azoteq,thresh-swipe'' of
                       Inl _ \<Rightarrow> (Inr (), s)
                     | Inr val \<Rightarrow>
                         if val > IQS269_THRESH_SWIPE_MAX then (Inl EINVAL, s)
                         else (Inr (), s\<lparr>sys_reg := (sys_reg s)
                                 \<lparr>thresh_swipe := ucast val\<rparr>\<rparr>)]
               s1 of
            (Inl error, s2) \<Rightarrow> (Inl error, s2)
          | (Inr _, s2) \<Rightarrow>
              (Inr general1,
               s2\<lparr>sys_reg := (sys_reg s2)
                   \<lparr>event_mask := event_mask (sys_reg s2)
                      AND NOT IQS269_EVENT_MASK_GESTURE\<rparr>\<rparr>))"

text \<open>Lines 1159-1177: the end of the general settings word, and its store.\<close>

definition iqs269_parse_prop_finish ::
  "fwnode_handle \<Rightarrow> u16 \<Rightarrow> iqs269_private \<Rightarrow> iqs269_private" where
  "iqs269_parse_prop_finish dev general0 iqs269 =
     (let g1 = iqs269_flag_prop dev ''azoteq,reseed-offset'' IQS269_SYS_SETTINGS_RESEED_OFFSET
                 general0;
          g2 = g1 OR IQS269_SYS_SETTINGS_EVENT_MODE;
          g3 = (if iqs269_slider_type iqs269 0 = IQS269_SLIDER_RAW \<or>
                   iqs269_slider_type iqs269 1 = IQS269_SLIDER_RAW
                then g2 OR IQS269_SYS_SETTINGS_EVENT_MODE_LP else g2);
          g4 = g3 OR IQS269_SYS_SETTINGS_REDO_ATI;
          g5 = g4 OR IQS269_SYS_SETTINGS_ACK_RESET
      in iqs269_sys_update (\<lambda>r. r\<lparr>general := cpu_to_be16 g5\<rparr>) iqs269)"

text \<open>
  \<^verbatim>\<open>iqs269_parse_prop\<close> (lines 800-1180). The register image is first read from the
  device, so that a field without a property keeps the value of the device.
\<close>

definition iqs269_parse_prop ::
  "fwnode_handle \<Rightarrow> iqs269_bus \<Rightarrow> iqs269_private \<Rightarrow> (errno + unit) \<times> iqs269_private" where
  "iqs269_parse_prop dev bus iqs269 =
     (let s0 = iqs269\<lparr>hall_enable := device_property_present dev ''azoteq,hall-enable''\<rparr>
      in case bus_read_sys_settings bus of
        Inl error \<Rightarrow> (Inl error, s0)
      | Inr image0 \<Rightarrow>
        (case iqs269_seq
                [iqs269_parse_prop_filter dev, iqs269_parse_prop_rates dev,
                 iqs269_parse_prop_misc dev, iqs269_parse_prop_select dev,
                 iqs269_parse_prop_channels dev]
                (s0\<lparr>sys_reg := image0\<rparr>) of
           (Inl error, s1) \<Rightarrow> (Inl error, s1)
         | (Inr _, s1) \<Rightarrow>
           (case iqs269_parse_prop_general dev s1 of
              Inl error \<Rightarrow> (Inl error, s1)
            | Inr general0 \<Rightarrow>
              (case iqs269_parse_prop_keycodes dev general0 s1 of
                 (Inl error, s2) \<Rightarrow> (Inl error, s2)
               | (Inr general1, s2) \<Rightarrow> (Inr (), iqs269_parse_prop_finish dev general1 s2)))))"

subsection \<open>Device initialisation and the report of a status snapshot\<close>

definition iqs269_tws_init :: "(u32 \<times> u32) list" where
  "iqs269_tws_init =
     [(IQS269_TOUCH_HOLD_SLIDER_SEL, IQS269_TOUCH_HOLD_DEFAULT), (0xF0, 0x580F), (0xF0, 0x59EF)]"

text \<open>\<^verbatim>\<open>iqs269_dev_init\<close> (lines 1188-1226).\<close>

definition iqs269_dev_init ::
  "iqs269_bus \<Rightarrow> iqs269_private \<Rightarrow> (errno + unit) \<times> iqs269_private \<times> effect list" where
  "iqs269_dev_init bus iqs269 =
     (let tws = (otp_option iqs269 = IQS269_OTP_OPTION_TWS \<and>
                 fw_num (ver_info iqs269) < IQS269_VER_INFO_FW_NUM_3);
          t1 = (if tws then [Regmap_multi_reg_write iqs269_tws_init] else [])
      in case (if tws then bus_multi_reg_write bus else Inr ()) of
        Inl error \<Rightarrow> (Inl error, iqs269, t1)
      | Inr _ \<Rightarrow>
        let t2 = t1 @ [Regmap_update_bits IQS269_HALL_UI IQS269_HALL_UI_ENABLE
                         (if hall_enable iqs269 then NOT 0 else 0)]
        in case bus_update_bits bus of
          Inl error \<Rightarrow> (Inl error, iqs269, t2)
        | Inr _ \<Rightarrow>
          let t3 = t2 @ [Regmap_raw_write IQS269_SYS_SETTINGS (sys_reg iqs269)]
          in case bus_raw_write bus of
            Inl error \<Rightarrow> (Inl error, iqs269, t3)
          | Inr _ \<Rightarrow>
              (Inr (), iqs269\<lparr>ati_current := True\<rparr>, t3 @ [Usleep_range 2000 2100]))"

text \<open>
  Lines 1367-1415 of \<^verbatim>\<open>iqs269_report\<close>: the body of the loop over the sliders, for slider
  \<open>i\<close> and the gesture byte already shifted for it. \<^verbatim>\<open>continue\<close> skips the final
  \<^verbatim>\<open>input_sync\<close>, \<^verbatim>\<open>break\<close> leaves the \<^verbatim>\<open>switch\<close> and reaches it.
\<close>

definition iqs269_report_slider ::
  "iqs269_private \<Rightarrow> iqs269_flags \<Rightarrow> u8 list \<Rightarrow> u8 \<Rightarrow> nat \<Rightarrow> effect list" where
  "iqs269_report_slider iqs269 flags slider_x g i =
     (case iqs269_slider_type iqs269 i of
        IQS269_SLIDER_NONE \<Rightarrow> []
      | IQS269_SLIDER_KEY \<Rightarrow>
          map (\<lambda>j. Input_report_key (Slider i) (sl_code iqs269 ! i ! j) (g AND BIT8 j \<noteq> 0))
            [0..<IQS269_NUM_GESTURES] @
          (if g AND (BIT8 IQS269_GESTURE_FLICK_NEG OR BIT8 IQS269_GESTURE_FLICK_POS
                     OR BIT8 IQS269_GESTURE_TAP) = 0
           then []
           else Input_sync (Slider i) #
                map (\<lambda>j. Input_report_key (Slider i) (sl_code iqs269 ! i ! j) False)
                  (filter (\<lambda>j. j \<noteq> IQS269_GESTURE_HOLD) [0..<IQS269_NUM_GESTURES])) @
          [Input_sync (Slider i)]
      | IQS269_SLIDER_RAW \<Rightarrow>
          let state = states flags ! IQS269_ST_OFFS_TOUCH AND slider_select (sys_reg iqs269) ! i
          in Input_report_key (Slider i) BTN_TOUCH (state \<noteq> 0) #
             (if state \<noteq> 0 then [Input_report_abs (Slider i) ABS_X (slider_x ! i)] else []) @
             [Input_sync (Slider i)])"

text \<open>The loop itself: \<^verbatim>\<open>flags.gesture\<close> is shifted in place at the top of each iteration.\<close>

fun iqs269_report_sliders ::
  "iqs269_private \<Rightarrow> iqs269_flags \<Rightarrow> u8 list \<Rightarrow> u8 \<Rightarrow> nat list \<Rightarrow> effect list" where
  "iqs269_report_sliders iqs269 flags slider_x g [] = []"
| "iqs269_report_sliders iqs269 flags slider_x g (i # is) =
     (let g' = drop_bit (i * IQS269_NUM_GESTURES) g
      in iqs269_report_slider iqs269 flags slider_x g' i @
         iqs269_report_sliders iqs269 flags slider_x g' is)"

text \<open>Lines 1426-1447: channel \<open>j\<close> of event \<open>i\<close>, with the fall-through of the Hall pair.\<close>

definition iqs269_report_chan :: "iqs269_private \<Rightarrow> u8 \<Rightarrow> nat \<Rightarrow> nat \<Rightarrow> effect list" where
  "iqs269_report_chan iqs269 state i j =
     (if j = IQS269_CHx_HALL_ACTIVE \<and> hall_enable iqs269 \<and> sw_enabled (switches iqs269 ! i)
      then [Input_report_switch Keypad (sw_code (switches iqs269 ! i)) (state AND BIT8 j \<noteq> 0)]
      else []) @
     (if (j = IQS269_CHx_HALL_ACTIVE \<or> j = IQS269_CHx_HALL_INACTIVE) \<and> hall_enable iqs269
      then []
      else [Input_report_key Keypad (keycode iqs269 ! (i * IQS269_NUM_CH + j))
              (state AND BIT8 j \<noteq> 0)])"

text \<open>Lines 1417-1448: the loop over the event table.\<close>

definition iqs269_report_event :: "iqs269_private \<Rightarrow> iqs269_flags \<Rightarrow> nat \<Rightarrow> effect list" where
  "iqs269_report_event iqs269 flags i =
     (let dir_mask0 = states flags ! IQS269_ST_OFFS_DIR;
          dir_mask = (if \<not> dir_up (iqs269_events ! i) then NOT dir_mask0 else dir_mask0);
          state = states flags ! st_offs (iqs269_events ! i) AND dir_mask
      in concat (map (iqs269_report_chan iqs269 state i) [0..<IQS269_NUM_CH]))"

text \<open>
  \<^verbatim>\<open>iqs269_report\<close> (lines 1320-1459). \<^verbatim>\<open>slider_x\<close> is read from the device only if a
  slider reports raw coordinates, and only such a slider uses it; it is zero here
  otherwise.
\<close>

definition iqs269_report ::
  "iqs269_bus \<Rightarrow> iqs269_private \<Rightarrow> (errno + unit) \<times> iqs269_private \<times> effect list" where
  "iqs269_report bus iqs269 =
     (let t0 = [Regmap_raw_read IQS269_SYS_FLAGS]
      in case bus_read_flags bus of
        Inl error \<Rightarrow> (Inl error, iqs269, t0)
      | Inr flags \<Rightarrow>
        if be16_to_cpu (system flags) AND IQS269_SYS_FLAGS_SHOW_RESET \<noteq> 0
        then (case iqs269_dev_init bus iqs269 of (error, s', t) \<Rightarrow> (error, s', t0 @ t))
        else if be16_to_cpu (system flags) AND IQS269_SYS_FLAGS_IN_ATI \<noteq> 0
        then (Inr (), iqs269, t0)
        else
          let raw = (iqs269_slider_type iqs269 0 = IQS269_SLIDER_RAW \<or>
                     iqs269_slider_type iqs269 1 = IQS269_SLIDER_RAW);
              t1 = t0 @ (if raw then [Regmap_raw_read IQS269_SLIDER_X] else [])
          in case (if raw then bus_read_slider_x bus else Inr [0, 0]) of
            Inl error \<Rightarrow> (Inl error, iqs269, t1)
          | Inr slider_x \<Rightarrow>
              (Inr (), iqs269\<lparr>ati_done := True\<rparr>,
               t1 @
               iqs269_report_sliders iqs269 flags slider_x (gesture flags) [0..<IQS269_NUM_SL] @
               concat (map (iqs269_report_event iqs269 flags) [0..<length iqs269_events]) @
               [Input_sync Keypad, Complete_all]))"

subsection \<open>Reading a trace\<close>

text \<open>The events an input device receives, \<^verbatim>\<open>input_sync\<close> included, in the order of the trace.\<close>

fun input_dev_of :: "effect \<Rightarrow> input_dev option" where
  "input_dev_of (Input_report_key d c v) = Some d"
| "input_dev_of (Input_report_switch d c v) = Some d"
| "input_dev_of (Input_report_abs d c x) = Some d"
| "input_dev_of (Input_sync d) = Some d"
| "input_dev_of _ = None"

definition input_events :: "effect list \<Rightarrow> effect list" where
  "input_events t = filter (\<lambda>e. input_dev_of e \<noteq> None) t"

definition input_events_on :: "input_dev \<Rightarrow> effect list \<Rightarrow> effect list" where
  "input_events_on d t = filter (\<lambda>e. input_dev_of e = Some d) t"

text \<open>The reports of a pressed key.\<close>

fun is_key_press :: "effect \<Rightarrow> bool" where
  "is_key_press (Input_report_key d c v) = v"
| "is_key_press _ = False"

text \<open>The register images written at \<^verbatim>\<open>IQS269_SYS_SETTINGS\<close>, in the order of the trace.\<close>

fun image_write_of :: "effect \<Rightarrow> iqs269_sys_reg option" where
  "image_write_of (Regmap_raw_write reg img) =
     (if reg = IQS269_SYS_SETTINGS then Some img else None)"
| "image_write_of _ = None"

definition image_writes :: "effect list \<Rightarrow> iqs269_sys_reg list" where
  "image_writes t = List.map_filter image_write_of t"

text \<open>
  A snapshot with only the reset bit set in its system flags (big-endian \<open>0x8000\<close>), a
  bus on which every access succeeds and returns this snapshot, and the same bus with a
  failing write of the Hall UI register.
\<close>

definition reset_flags :: iqs269_flags where
  "reset_flags = \<lparr>system = (0x80, 0x00), gesture = 0, flags_padding = 0, states = [0, 0, 0, 0]\<rparr>"

definition reset_bus :: iqs269_bus where
  "reset_bus =
     \<lparr>bus_multi_reg_write = Inr (), bus_update_bits = Inr (), bus_raw_write = Inr (),
      bus_read_flags = Inr reset_flags, bus_read_slider_x = Inr [0, 0],
      bus_read_sys_settings = Inr iqs269_sys_reg_zero\<rparr>"

definition reset_bus_hall_fails :: iqs269_bus where
  "reset_bus_hall_fails = reset_bus\<lparr>bus_update_bits := Inl EREMOTEIO\<rparr>"

text \<open>
  A configuration with channel 0 assigned to slider 0, whose tap is mapped to key 30 and
  whose hold is mapped to key 31, and two clean snapshots: one with only the tap bit of
  slider 0 set, one with only its hold bit.
\<close>

definition gesture_state :: iqs269_private where
  "gesture_state =
     iqs269_kzalloc\<lparr>sys_reg := iqs269_sys_reg_zero\<lparr>slider_select := [0x01, 0x00]\<rparr>,
                    sl_code := [[30, 31, 0, 0], [0, 0, 0, 0]]\<rparr>"

definition tap_flags :: iqs269_flags where
  "tap_flags = \<lparr>system = (0x00, 0x00), gesture = 0x01, flags_padding = 0, states = [0, 0, 0, 0]\<rparr>"

definition hold_flags :: iqs269_flags where
  "hold_flags = \<lparr>system = (0x00, 0x00), gesture = 0x02, flags_padding = 0, states = [0, 0, 0, 0]\<rparr>"

definition tap_bus :: iqs269_bus where
  "tap_bus = reset_bus\<lparr>bus_read_flags := Inr tap_flags\<rparr>"

definition hold_bus :: iqs269_bus where
  "hold_bus = reset_bus\<lparr>bus_read_flags := Inr hold_flags\<rparr>"

text \<open>
  A device node with one gesture key code, a tap timeout of 800 ms, a swipe timeout of
  480 ms and a swipe threshold of 200, and the zeroed structure with an early firmware
  revision (\<open>0x02\<close>) and with the revision \<open>0x10\<close> of \<^verbatim>\<open>IQS269_VER_INFO_FW_NUM_3\<close>.
\<close>

definition gesture_dev :: fwnode_handle where
  "gesture_dev =
     Fwnode [(''linux,keycodes'', [30]), (''azoteq,timeout-tap-ms'', [800]),
             (''azoteq,timeout-swipe-ms'', [480]), (''azoteq,thresh-swipe'', [200])] []"

definition early_fw_state :: iqs269_private where
  "early_fw_state =
     iqs269_kzalloc\<lparr>ver_info := \<lparr>prod_num = 0x4F, sw_num = 0, hw_num = 0, fw_num = 0x02\<rparr>\<rparr>"

definition late_fw_state :: iqs269_private where
  "late_fw_state =
     iqs269_kzalloc\<lparr>ver_info := \<lparr>prod_num = 0x4F, sw_num = 0, hw_num = 0, fw_num = 0x10\<rparr>\<rparr>"





section \<open>Verification\<close>

subsection \<open>Words and the ATI fields\<close>

lemma be16_roundtrip: "be16_to_cpu (cpu_to_be16 w) = w"
  unfolding be16_to_cpu_def cpu_to_be16_def
  by (rule bit_word_eqI) (auto simp add: bit_simps)

lemma bit_below:
  fixes q :: "'a::len word"
  assumes "q < 2 ^ k" and "bit q n"
  shows "n < k"
proof -
  have "q AND mask k = q" using assms(1) by (rule less_mask_eq)
  then have "bit (q AND mask k) n" using assms(2) by simp
  then show ?thesis by (simp add: bit_simps)
qed

lemma iqs269_wf_kzalloc: "iqs269_wf iqs269_kzalloc"
  by (simp add: iqs269_wf_def iqs269_kzalloc_def iqs269_sys_reg_zero_def iqs269_ch_reg_zero_def
      IQS269_NUM_CH_def IQS269_NUM_SL_def IQS269_NUM_GESTURES_def list_all_iff)

lemma field6_insert:
  fixes q :: u32 and x :: u16
  assumes "q < 64"
  shows "(ucast ((x AND NOT 0x3F OR ucast q) AND (0x3F::u16)) :: u32) = q"
proof -
  have q: "q < 2 ^ 6" using assms by simp
  have m: "(0x3F::u16) = mask 6" by (simp add: mask_eq_exp_minus_1)
  show ?thesis
    unfolding m
    by (rule bit_word_eqI) (auto simp add: bit_simps dest: bit_below [OF q])
qed

lemma div32_small:
  fixes t :: u32
  assumes "t \<le> 2016"
  shows "t div 32 < 64"
proof -
  have "unat t \<le> 2016" using assms by (simp add: word_le_nat_alt)
  then have "unat (t div 32) < 64" by (simp add: unat_div)
  then show ?thesis by (simp add: word_less_nat_alt)
qed

lemma div32_mult:
  fixes t :: u32
  shows "t div 32 * 32 = t - t mod 32"
proof -
  have "t div 32 * 32 + t mod 32 = t" by (rule div_mult_mod_eq)
  then show ?thesis by (metis add_diff_cancel_right')
qed

lemma target_field:
  fixes t :: u32 and x :: u16
  assumes "t \<le> IQS269_CHx_ENG_B_ATI_TARGET_MAX"
  shows "(ucast ((x AND NOT IQS269_CHx_ENG_B_ATI_TARGET_MASK OR ucast (t div 32))
            AND IQS269_CHx_ENG_B_ATI_TARGET_MASK) :: u32) * 32 = t - t mod 32"
proof -
  have "t \<le> 2016" using assms by (simp add: IQS269_CHx_ENG_B_ATI_TARGET_MAX_def)
  then show ?thesis
    unfolding IQS269_CHx_ENG_B_ATI_TARGET_MASK_def
    by (simp only: field6_insert [OF div32_small] div32_mult)
qed

lemma mod32_zero_iff:
  fixes t :: u32
  shows "t - t mod 32 = t \<longleftrightarrow> 32 dvd unat t"
proof -
  have "t - t mod 32 = t \<longleftrightarrow> t mod 32 = 0" by auto
  also have "\<dots> \<longleftrightarrow> unat (t mod 32) = 0" by (simp add: unat_eq_0)
  also have "\<dots> \<longleftrightarrow> unat t mod 32 = 0" by (simp add: unat_mod)
  also have "\<dots> \<longleftrightarrow> 32 dvd unat t" by (simp add: dvd_eq_mod_eq_0)
  finally show ?thesis .
qed

lemma wf_ch_index:
  "iqs269_wf s \<Longrightarrow> unat ch < IQS269_NUM_CH \<Longrightarrow> unat ch < length (ch_reg (sys_reg s))"
  by (simp add: iqs269_wf_def)

text \<open>
  Claim C4. For a channel below 8 and a target of at most 2016, \<^verbatim>\<open>iqs269_ati_target_set\<close>
  succeeds and \<^verbatim>\<open>iqs269_ati_target_get\<close> then returns the target minus its remainder
  modulo 32; it returns the target itself exactly when the target is a multiple of 32.
\<close>

theorem C4_ati_target_round_trip:
  assumes wf: "iqs269_wf s"
    and ch: "unat ch < IQS269_NUM_CH"
    and t: "target \<le> IQS269_CHx_ENG_B_ATI_TARGET_MAX"
  shows "fst (iqs269_ati_target_set s ch target) = Inr () \<and>
         fst (iqs269_ati_target_get (snd (iqs269_ati_target_set s ch target)) ch)
           = Inr (target - target mod 32) \<and>
         (fst (iqs269_ati_target_get (snd (iqs269_ati_target_set s ch target)) ch) = Inr target
            \<longleftrightarrow> 32 dvd unat target)"
proof -
  have nt: "\<not> IQS269_CHx_ENG_B_ATI_TARGET_MAX < target" using t by simp
  have ok: "fst (iqs269_ati_target_set s ch target) = Inr ()"
    using ch nt by (simp add: iqs269_ati_target_set_def Let_def)
  have get: "fst (iqs269_ati_target_get (snd (iqs269_ati_target_set s ch target)) ch)
           = Inr (target - target mod 32)"
    using ch nt wf_ch_index [OF wf ch]
    by (simp add: iqs269_ati_target_set_def iqs269_ati_target_get_def Let_def
        be16_roundtrip target_field [OF t])
  show ?thesis
    by (simp only: ok get sum.inject mod32_zero_iff simp_thms)
qed

text \<open>The round trip on channel 3 with target 1000, which is stored as 992.\<close>

theorem C4_ati_target_round_trip_witness:
  "iqs269_wf iqs269_kzalloc \<and> unat (3 :: u32) < IQS269_NUM_CH \<and>
   (1000 :: u32) \<le> IQS269_CHx_ENG_B_ATI_TARGET_MAX \<and>
   fst (iqs269_ati_target_set iqs269_kzalloc 3 1000) = Inr () \<and>
   fst (iqs269_ati_target_get (snd (iqs269_ati_target_set iqs269_kzalloc 3 1000)) 3) = Inr 992 \<and>
   \<not> 32 dvd unat (1000 :: u32)"
proof -
  have ch: "unat (3 :: u32) < IQS269_NUM_CH" by (simp add: IQS269_NUM_CH_def)
  have t: "(1000 :: u32) \<le> IQS269_CHx_ENG_B_ATI_TARGET_MAX"
    by (simp add: IQS269_CHx_ENG_B_ATI_TARGET_MAX_def)
  show ?thesis
    using C4_ati_target_round_trip [OF iqs269_wf_kzalloc ch t] iqs269_wf_kzalloc ch t by simp
qed

lemma bit_0x40: "bit (0x40::int) n \<longleftrightarrow> n = 6"
  using bit_exp_iff [where ?'a = int, of 6 n] by auto

lemma bit_0x80: "bit (0x80::int) n \<longleftrightarrow> n = 7"
  using bit_exp_iff [where ?'a = int, of 7 n] by auto

lemma bit_0xC0: "bit (0xC0::int) n \<longleftrightarrow> n = 6 \<or> n = 7"
proof -
  have "(0xC0::int) = 0x40 OR 0x80" by simp
  then show ?thesis by (simp only: bit_or_iff bit_0x40 bit_0x80)
qed

lemma base_field_cases:
  fixes x :: u16
  shows "x AND 0xC0 = 0 \<or> x AND 0xC0 = 0x40 \<or> x AND 0xC0 = 0x80 \<or> x AND 0xC0 = 0xC0"
proof (cases "bit x 6"; cases "bit x 7")
  assume "bit x 6" "bit x 7"
  then have "x AND 0xC0 = 0xC0"
    by - (rule bit_word_eqI, auto simp add: bit_and_iff bit_0xC0)
  then show ?thesis by simp
next
  assume "bit x 6" "\<not> bit x 7"
  then have "x AND 0xC0 = 0x40"
    by - (rule bit_word_eqI, auto simp add: bit_and_iff bit_0xC0 bit_0x40)
  then show ?thesis by simp
next
  assume "\<not> bit x 6" "bit x 7"
  then have "x AND 0xC0 = 0x80"
    by - (rule bit_word_eqI, auto simp add: bit_and_iff bit_0xC0 bit_0x80)
  then show ?thesis by simp
next
  assume "\<not> bit x 6" "\<not> bit x 7"
  then have "x AND 0xC0 = 0"
    by - (rule bit_word_eqI, auto simp add: bit_and_iff bit_0xC0)
  then show ?thesis by simp
qed

lemma base_field_insert:
  fixes x c :: u16
  assumes "c AND IQS269_CHx_ENG_B_ATI_BASE_MASK = c"
  shows "(x AND NOT IQS269_CHx_ENG_B_ATI_BASE_MASK OR c) AND IQS269_CHx_ENG_B_ATI_BASE_MASK = c"
proof -
  have "(x AND NOT IQS269_CHx_ENG_B_ATI_BASE_MASK OR c) AND IQS269_CHx_ENG_B_ATI_BASE_MASK
          = c AND IQS269_CHx_ENG_B_ATI_BASE_MASK"
    by (rule bit_word_eqI) (auto simp add: bit_simps)
  then show ?thesis using assms by simp
qed

lemma base_code_in_mask:
  "iqs269_ati_base_code base = Some c \<Longrightarrow> c AND IQS269_CHx_ENG_B_ATI_BASE_MASK = c"
  by (auto simp add: iqs269_ati_base_code_def IQS269_CHx_ENG_B_ATI_BASE_MASK_def
      IQS269_CHx_ENG_B_ATI_BASE_75_def IQS269_CHx_ENG_B_ATI_BASE_100_def
      IQS269_CHx_ENG_B_ATI_BASE_150_def IQS269_CHx_ENG_B_ATI_BASE_200_def split: if_splits)

lemma base_code_Some_iff:
  "(\<exists>c. iqs269_ati_base_code base = Some c) \<longleftrightarrow> base \<in> {75, 100, 150, 200}"
  by (auto simp add: iqs269_ati_base_code_def)

lemma base_decode:
  assumes "iqs269_ati_base_code base = Some c"
  shows "(if c = IQS269_CHx_ENG_B_ATI_BASE_75 then Inr 75
          else if c = IQS269_CHx_ENG_B_ATI_BASE_100 then Inr 100
          else if c = IQS269_CHx_ENG_B_ATI_BASE_150 then Inr 150
          else if c = IQS269_CHx_ENG_B_ATI_BASE_200 then Inr 200
          else Inl EINVAL) = (Inr base :: errno + u32)"
  using assms
  by (auto simp add: iqs269_ati_base_code_def
      IQS269_CHx_ENG_B_ATI_BASE_75_def IQS269_CHx_ENG_B_ATI_BASE_100_def
      IQS269_CHx_ENG_B_ATI_BASE_150_def IQS269_CHx_ENG_B_ATI_BASE_200_def split: if_splits)

text \<open>
  Claim C5. For a channel below 8 and a base of 75, 100, 150 or 200,
  \<^verbatim>\<open>iqs269_ati_base_set\<close> succeeds and \<^verbatim>\<open>iqs269_ati_base_get\<close> then returns the base that
  was set; with any other base \<^verbatim>\<open>iqs269_ati_base_set\<close> fails with \<^verbatim>\<open>-EINVAL\<close>.
\<close>

theorem C5_ati_base_round_trip:
  assumes wf: "iqs269_wf s"
  shows "(unat ch < IQS269_NUM_CH \<and> base \<in> {75, 100, 150, 200} \<longrightarrow>
            fst (iqs269_ati_base_set s ch base) = Inr () \<and>
            fst (iqs269_ati_base_get (snd (iqs269_ati_base_set s ch base)) ch) = Inr base) \<and>
         (base \<notin> {75, 100, 150, 200} \<longrightarrow> fst (iqs269_ati_base_set s ch base) = Inl EINVAL)"
proof (intro conjI impI)
  assume a: "unat ch < IQS269_NUM_CH \<and> base \<in> {75, 100, 150, 200}"
  then obtain c where c: "iqs269_ati_base_code base = Some c"
    using base_code_Some_iff [of base] by blast
  have ch: "unat ch < IQS269_NUM_CH" using a by simp
  show "fst (iqs269_ati_base_set s ch base) = Inr ()"
    using ch c by (simp add: iqs269_ati_base_set_def Let_def)
  have "fst (iqs269_ati_base_get (snd (iqs269_ati_base_set s ch base)) ch)
          = (if c = IQS269_CHx_ENG_B_ATI_BASE_75 then Inr 75
             else if c = IQS269_CHx_ENG_B_ATI_BASE_100 then Inr 100
             else if c = IQS269_CHx_ENG_B_ATI_BASE_150 then Inr 150
             else if c = IQS269_CHx_ENG_B_ATI_BASE_200 then Inr 200
             else Inl EINVAL)"
    using ch c wf_ch_index [OF wf ch]
    by (simp add: iqs269_ati_base_set_def iqs269_ati_base_get_def Let_def
        be16_roundtrip base_field_insert [OF base_code_in_mask [OF c]])
  then show "fst (iqs269_ati_base_get (snd (iqs269_ati_base_set s ch base)) ch) = Inr base"
    by (simp only: base_decode [OF c])
next
  assume "base \<notin> {75, 100, 150, 200}"
  then have "iqs269_ati_base_code base = None"
    using base_code_Some_iff [of base] by (cases "iqs269_ati_base_code base") auto
  then show "fst (iqs269_ati_base_set s ch base) = Inl EINVAL"
    by (simp add: iqs269_ati_base_set_def)
qed

text \<open>Base 150 on channel 5 is read back; base 76 is refused.\<close>

theorem C5_ati_base_round_trip_witness:
  "iqs269_wf iqs269_kzalloc \<and> unat (5 :: u32) < IQS269_NUM_CH \<and>
   (150 :: u32) \<in> {75, 100, 150, 200} \<and>
   fst (iqs269_ati_base_get (snd (iqs269_ati_base_set iqs269_kzalloc 5 150)) 5) = Inr 150 \<and>
   (76 :: u32) \<notin> {75, 100, 150, 200} \<and>
   fst (iqs269_ati_base_set iqs269_kzalloc 5 76) = Inl EINVAL"
  using C5_ati_base_round_trip [OF iqs269_wf_kzalloc, of 5 150]
    C5_ati_base_round_trip [OF iqs269_wf_kzalloc, of 5 76] iqs269_wf_kzalloc
  by (simp add: IQS269_NUM_CH_def)

text \<open>
  Claim C6. Each ATI setter fails with \<^verbatim>\<open>-EINVAL\<close> for a channel index of 8 or more;
  the mode setter also for a mode above 3, the base setter for a base outside
  75, 100, 150 and 200, the target setter for a target above 2016. Whenever a setter
  fails, the structure it returns (register image and \<^verbatim>\<open>ati_current\<close>) is the one it
  was given.
\<close>

theorem C6_ati_set_invalid_unchanged:
  "(unat ch \<ge> IQS269_NUM_CH \<or> mode > IQS269_CHx_ENG_A_ATI_MODE_MAX \<longrightarrow>
      iqs269_ati_mode_set s ch mode = (Inl EINVAL, s)) \<and>
   (unat ch \<ge> IQS269_NUM_CH \<or> base \<notin> {75, 100, 150, 200} \<longrightarrow>
      iqs269_ati_base_set s ch base = (Inl EINVAL, s)) \<and>
   (unat ch \<ge> IQS269_NUM_CH \<or> target > IQS269_CHx_ENG_B_ATI_TARGET_MAX \<longrightarrow>
      iqs269_ati_target_set s ch target = (Inl EINVAL, s)) \<and>
   (\<forall>e. fst (iqs269_ati_mode_set s ch mode) = Inl e \<longrightarrow>
      snd (iqs269_ati_mode_set s ch mode) = s) \<and>
   (\<forall>e. fst (iqs269_ati_base_set s ch base) = Inl e \<longrightarrow>
      snd (iqs269_ati_base_set s ch base) = s) \<and>
   (\<forall>e. fst (iqs269_ati_target_set s ch target) = Inl e \<longrightarrow>
      snd (iqs269_ati_target_set s ch target) = s)"
proof -
  have none: "base \<notin> {75, 100, 150, 200} \<Longrightarrow> iqs269_ati_base_code base = None"
    using base_code_Some_iff [of base] by (cases "iqs269_ati_base_code base") auto
  have m1: "unat ch \<ge> IQS269_NUM_CH \<or> mode > IQS269_CHx_ENG_A_ATI_MODE_MAX \<longrightarrow>
      iqs269_ati_mode_set s ch mode = (Inl EINVAL, s)"
    by (auto simp add: iqs269_ati_mode_set_def)
  have b1: "unat ch \<ge> IQS269_NUM_CH \<or> base \<notin> {75, 100, 150, 200} \<longrightarrow>
      iqs269_ati_base_set s ch base = (Inl EINVAL, s)"
    using none by (auto simp add: iqs269_ati_base_set_def)
  have t1: "unat ch \<ge> IQS269_NUM_CH \<or> target > IQS269_CHx_ENG_B_ATI_TARGET_MAX \<longrightarrow>
      iqs269_ati_target_set s ch target = (Inl EINVAL, s)"
    by (auto simp add: iqs269_ati_target_set_def)
  have m2: "\<forall>e. fst (iqs269_ati_mode_set s ch mode) = Inl e \<longrightarrow>
      snd (iqs269_ati_mode_set s ch mode) = s"
    by (simp add: iqs269_ati_mode_set_def Let_def)
  have b2: "\<forall>e. fst (iqs269_ati_base_set s ch base) = Inl e \<longrightarrow>
      snd (iqs269_ati_base_set s ch base) = s"
    by (simp add: iqs269_ati_base_set_def Let_def split: option.split)
  have t2: "\<forall>e. fst (iqs269_ati_target_set s ch target) = Inl e \<longrightarrow>
      snd (iqs269_ati_target_set s ch target) = s"
    by (simp add: iqs269_ati_target_set_def Let_def)
  from m1 b1 t1 m2 b2 t2 show ?thesis by blast
qed

text \<open>Channel 8, base 77, target 2017 and mode 4 are each refused and change nothing.\<close>

theorem C6_ati_set_invalid_unchanged_witness:
  "unat (8 :: u32) \<ge> IQS269_NUM_CH \<and>
   iqs269_ati_mode_set iqs269_kzalloc 8 0 = (Inl EINVAL, iqs269_kzalloc) \<and>
   (77 :: u32) \<notin> {75, 100, 150, 200} \<and>
   iqs269_ati_base_set iqs269_kzalloc 0 77 = (Inl EINVAL, iqs269_kzalloc) \<and>
   (2017 :: u32) > IQS269_CHx_ENG_B_ATI_TARGET_MAX \<and>
   iqs269_ati_target_set iqs269_kzalloc 0 2017 = (Inl EINVAL, iqs269_kzalloc) \<and>
   fst (iqs269_ati_mode_set iqs269_kzalloc 0 4) = Inl EINVAL \<and>
   snd (iqs269_ati_mode_set iqs269_kzalloc 0 4) = iqs269_kzalloc"
  using C6_ati_set_invalid_unchanged [of 8 0 iqs269_kzalloc 75 0]
    C6_ati_set_invalid_unchanged [of 0 4 iqs269_kzalloc 77 2017]
  by (simp add: IQS269_NUM_CH_def IQS269_CHx_ENG_B_ATI_TARGET_MAX_def
      IQS269_CHx_ENG_A_ATI_MODE_MAX_def)

text \<open>
  Claim C7. For a channel below 8 and a valid value, each ATI setter succeeds and
  leaves \<^verbatim>\<open>ati_current\<close> false, whatever the structure held before: also when the value
  written is the value already stored.
\<close>

theorem C7_ati_set_marks_stale:
  assumes ch: "unat ch < IQS269_NUM_CH"
  shows "(mode \<le> IQS269_CHx_ENG_A_ATI_MODE_MAX \<longrightarrow>
            fst (iqs269_ati_mode_set s ch mode) = Inr () \<and>
            \<not> ati_current (snd (iqs269_ati_mode_set s ch mode))) \<and>
         (base \<in> {75, 100, 150, 200} \<longrightarrow>
            fst (iqs269_ati_base_set s ch base) = Inr () \<and>
            \<not> ati_current (snd (iqs269_ati_base_set s ch base))) \<and>
         (target \<le> IQS269_CHx_ENG_B_ATI_TARGET_MAX \<longrightarrow>
            fst (iqs269_ati_target_set s ch target) = Inr () \<and>
            \<not> ati_current (snd (iqs269_ati_target_set s ch target)))"
proof (intro conjI impI)
  assume "mode \<le> IQS269_CHx_ENG_A_ATI_MODE_MAX"
  then have "\<not> IQS269_CHx_ENG_A_ATI_MODE_MAX < mode" by simp
  then show "fst (iqs269_ati_mode_set s ch mode) = Inr ()"
    and "\<not> ati_current (snd (iqs269_ati_mode_set s ch mode))"
    using ch by (simp_all add: iqs269_ati_mode_set_def Let_def)
next
  assume "base \<in> {75, 100, 150, 200}"
  then obtain c where c: "iqs269_ati_base_code base = Some c"
    using base_code_Some_iff [of base] by blast
  then show "fst (iqs269_ati_base_set s ch base) = Inr ()"
    and "\<not> ati_current (snd (iqs269_ati_base_set s ch base))"
    using ch by (simp_all add: iqs269_ati_base_set_def Let_def)
next
  assume "target \<le> IQS269_CHx_ENG_B_ATI_TARGET_MAX"
  then have "\<not> IQS269_CHx_ENG_B_ATI_TARGET_MAX < target" by simp
  then show "fst (iqs269_ati_target_set s ch target) = Inr ()"
    and "\<not> ati_current (snd (iqs269_ati_target_set s ch target))"
    using ch by (simp_all add: iqs269_ati_target_set_def Let_def)
qed

text \<open>
  Channel 2 of the zeroed image already has mode 0, base 75 and target 0; writing them
  again to a device with current calibration still clears \<^verbatim>\<open>ati_current\<close>.
\<close>

theorem C7_ati_set_marks_stale_witness:
  "unat (2 :: u32) < IQS269_NUM_CH \<and> (0 :: u32) \<le> IQS269_CHx_ENG_A_ATI_MODE_MAX \<and>
   (75 :: u32) \<in> {75, 100, 150, 200} \<and> (0 :: u32) \<le> IQS269_CHx_ENG_B_ATI_TARGET_MAX \<and>
   ati_current (iqs269_kzalloc\<lparr>ati_current := True\<rparr>) \<and>
   fst (iqs269_ati_mode_get (iqs269_kzalloc\<lparr>ati_current := True\<rparr>) 2) = Inr 0 \<and>
   fst (iqs269_ati_mode_set (iqs269_kzalloc\<lparr>ati_current := True\<rparr>) 2 0) = Inr () \<and>
   \<not> ati_current (snd (iqs269_ati_mode_set (iqs269_kzalloc\<lparr>ati_current := True\<rparr>) 2 0)) \<and>
   \<not> ati_current (snd (iqs269_ati_base_set (iqs269_kzalloc\<lparr>ati_current := True\<rparr>) 2 75)) \<and>
   \<not> ati_current (snd (iqs269_ati_target_set (iqs269_kzalloc\<lparr>ati_current := True\<rparr>) 2 0))"
proof -
  have ch: "unat (2 :: u32) < IQS269_NUM_CH" by (simp add: IQS269_NUM_CH_def)
  have g: "fst (iqs269_ati_mode_get (iqs269_kzalloc\<lparr>ati_current := True\<rparr>) 2) = Inr 0"
    by (simp add: iqs269_ati_mode_get_def iqs269_kzalloc_def iqs269_sys_reg_zero_def
        iqs269_ch_reg_zero_def IQS269_NUM_CH_def be16_to_cpu_def Let_def)
  show ?thesis
    using C7_ati_set_marks_stale [OF ch, of 0 "iqs269_kzalloc\<lparr>ati_current := True\<rparr>" 75 0] ch g
    by (simp add: IQS269_CHx_ENG_B_ATI_TARGET_MAX_def IQS269_CHx_ENG_A_ATI_MODE_MAX_def)
qed

text \<open>
  Claim C10. For a channel below 8 each ATI getter returns a value, not an error, and
  the structure it returns is the structure it was given.
\<close>

theorem C10_ati_get_frame:
  assumes ch: "unat ch < IQS269_NUM_CH"
  shows "(\<exists>mode. iqs269_ati_mode_get s ch = (Inr mode, s)) \<and>
         (\<exists>base. iqs269_ati_base_get s ch = (Inr base, s)) \<and>
         (\<exists>target. iqs269_ati_target_get s ch = (Inr target, s))"
proof (intro conjI)
  show "\<exists>mode. iqs269_ati_mode_get s ch = (Inr mode, s)"
    using ch by (simp add: iqs269_ati_mode_get_def Let_def)
  show "\<exists>target. iqs269_ati_target_get s ch = (Inr target, s)"
    using ch by (simp add: iqs269_ati_target_get_def Let_def)
  have "be16_to_cpu (engine_b (ch_reg (sys_reg s) ! unat ch)) AND IQS269_CHx_ENG_B_ATI_BASE_MASK
          \<in> {IQS269_CHx_ENG_B_ATI_BASE_75, IQS269_CHx_ENG_B_ATI_BASE_100,
              IQS269_CHx_ENG_B_ATI_BASE_150, IQS269_CHx_ENG_B_ATI_BASE_200}"
    using base_field_cases [of "be16_to_cpu (engine_b (ch_reg (sys_reg s) ! unat ch))"]
    by (simp add: IQS269_CHx_ENG_B_ATI_BASE_MASK_def
      IQS269_CHx_ENG_B_ATI_BASE_75_def IQS269_CHx_ENG_B_ATI_BASE_100_def
      IQS269_CHx_ENG_B_ATI_BASE_150_def IQS269_CHx_ENG_B_ATI_BASE_200_def)
  then show "\<exists>base. iqs269_ati_base_get s ch = (Inr base, s)"
    using ch by (auto simp add: iqs269_ati_base_get_def Let_def)
qed

text \<open>The three getters on channel 7 of the zeroed image.\<close>

theorem C10_ati_get_frame_witness:
  "unat (7 :: u32) < IQS269_NUM_CH \<and>
   iqs269_ati_mode_get iqs269_kzalloc 7 = (Inr 0, iqs269_kzalloc) \<and>
   iqs269_ati_base_get iqs269_kzalloc 7 = (Inr 75, iqs269_kzalloc) \<and>
   iqs269_ati_target_get iqs269_kzalloc 7 = (Inr 0, iqs269_kzalloc)"
proof -
  have ch: "unat (7 :: u32) < IQS269_NUM_CH" by (simp add: IQS269_NUM_CH_def)
  have e: "be16_to_cpu (engine_a (ch_reg (sys_reg iqs269_kzalloc) ! 7)) = 0"
      "be16_to_cpu (engine_b (ch_reg (sys_reg iqs269_kzalloc) ! 7)) = 0"
    by (simp_all add: iqs269_kzalloc_def iqs269_sys_reg_zero_def
        iqs269_ch_reg_zero_def be16_to_cpu_def)
  from C10_ati_get_frame [OF ch, of iqs269_kzalloc] ch e show ?thesis
    by (auto simp add: iqs269_ati_mode_get_def iqs269_ati_base_get_def
        iqs269_ati_target_get_def Let_def IQS269_CHx_ENG_B_ATI_BASE_75_def)
qed

subsection \<open>Pin masks\<close>

lemma parse_mask_loop_ok:
  "\<forall>v\<in>set val. unat v < IQS269_NUM_CH \<Longrightarrow>
     iqs269_parse_mask_loop val m = (Inr (), m OR or_of_bits val)"
proof (induction val arbitrary: m)
  case Nil
  then show ?case by (simp add: or_of_bits_def)
next
  case (Cons v val)
  then have "iqs269_parse_mask_loop (v # val) m = (Inr (), (m OR BIT8 (unat v)) OR or_of_bits val)"
    by simp
  then show ?case by (simp add: or_of_bits_def or.assoc)
qed

lemma parse_mask_loop_bad:
  "\<exists>v\<in>set val. unat v \<ge> IQS269_NUM_CH \<Longrightarrow> fst (iqs269_parse_mask_loop val m) = Inl EINVAL"
proof (induction val arbitrary: m)
  case Nil
  then show ?case by simp
next
  case (Cons v val)
  show ?case
  proof (cases "unat v \<ge> IQS269_NUM_CH")
    case True
    then show ?thesis by simp
  next
    case False
    with Cons.prems have "\<exists>v\<in>set val. unat v \<ge> IQS269_NUM_CH" by auto
    with False Cons.IH show ?thesis by simp
  qed
qed

lemma bit_BIT8: "bit (BIT8 k) n \<longleftrightarrow> n = k \<and> k < 8"
  by (auto simp add: BIT8_def bit_simps)

lemma bit_or_of_bits:
  "\<forall>v\<in>set val. unat v < IQS269_NUM_CH \<Longrightarrow> bit (or_of_bits val) n \<longleftrightarrow> n \<in> unat ` set val"
proof (induction val)
  case Nil
  then show ?case by (simp add: or_of_bits_def)
next
  case (Cons v val)
  have unf: "or_of_bits (v # val) = BIT8 (unat v) OR or_of_bits val"
    by (simp add: or_of_bits_def)
  from Cons show ?case
    by (auto simp add: unf bit_or_iff bit_BIT8 IQS269_NUM_CH_def)
qed

text \<open>
  Claim C3. When the property holds a list of at most 8 pin indices, all below 8,
  \<^verbatim>\<open>iqs269_parse_mask\<close> succeeds and the mask is the bitwise OR of \<^verbatim>\<open>BIT(index)\<close> over the
  entries: bit \<open>n\<close> is set exactly if \<open>n\<close> is in the list, whatever the mask held before.
  When the list has more than 8 entries or an entry of 8 or more it fails with
  \<^verbatim>\<open>-EINVAL\<close>.
\<close>

theorem C3_parse_mask_or_of_bits:
  assumes present: "map_of (fw_props fwnode) propname = Some val"
  shows "(length val \<le> 8 \<and> (\<forall>v\<in>set val. unat v < 8) \<longrightarrow>
            iqs269_parse_mask fwnode propname m = (Inr (), or_of_bits val) \<and>
            (\<forall>n. bit (or_of_bits val) n \<longleftrightarrow> n \<in> unat ` set val)) \<and>
         (length val > 8 \<or> (\<exists>v\<in>set val. unat v \<ge> 8) \<longrightarrow>
            fst (iqs269_parse_mask fwnode propname m) = Inl EINVAL)"
proof (intro conjI impI)
  assume a: "length val \<le> 8 \<and> (\<forall>v\<in>set val. unat v < 8)"
  then have ok: "\<forall>v\<in>set val. unat v < IQS269_NUM_CH" by (simp add: IQS269_NUM_CH_def)
  from a present show "iqs269_parse_mask fwnode propname m = (Inr (), or_of_bits val)"
    by (simp add: iqs269_parse_mask_def fwnode_property_count_u32_def
        fwnode_property_read_u32_array_def IQS269_NUM_CH_def
        parse_mask_loop_ok [OF ok])
  from bit_or_of_bits [OF ok]
  show "\<forall>n. bit (or_of_bits val) n \<longleftrightarrow> n \<in> unat ` set val" by simp
next
  assume b: "length val > 8 \<or> (\<exists>v\<in>set val. unat v \<ge> 8)"
  show "fst (iqs269_parse_mask fwnode propname m) = Inl EINVAL"
  proof (cases "length val > 8")
    case True
    with present show ?thesis
      by (simp add: iqs269_parse_mask_def fwnode_property_count_u32_def IQS269_NUM_CH_def)
  next
    case False
    with b have "\<exists>v\<in>set val. unat v \<ge> IQS269_NUM_CH" by (simp add: IQS269_NUM_CH_def)
    from parse_mask_loop_bad [OF this, of 0] False present show ?thesis
      by (simp add: iqs269_parse_mask_def fwnode_property_count_u32_def
          fwnode_property_read_u32_array_def IQS269_NUM_CH_def)
  qed
qed

text \<open>The pins 0, 3, 3 and 7 give the mask \<open>0x89\<close>; the pins 1 and 8 are refused.\<close>

theorem C3_parse_mask_or_of_bits_witness:
  "map_of (fw_props (Fwnode [(''azoteq,rx-enable'', [0, 3, 3, 7])] [])) ''azoteq,rx-enable''
     = Some [0, 3, 3, 7] \<and>
   length [0, 3, 3, 7 :: u32] \<le> 8 \<and>
   iqs269_parse_mask (Fwnode [(''azoteq,rx-enable'', [0, 3, 3, 7])] []) ''azoteq,rx-enable'' 0x55
     = (Inr (), 0x89) \<and>
   unat (8 :: u32) \<ge> 8 \<and>
   fst (iqs269_parse_mask (Fwnode [(''azoteq,tx-enable'', [1, 8])] []) ''azoteq,tx-enable'' 0x55)
     = Inl EINVAL"
proof -
  have p1: "map_of (fw_props (Fwnode [(''azoteq,rx-enable'', [0, 3, 3, 7])] [])) ''azoteq,rx-enable''
     = Some [0, 3, 3, 7]" by simp
  have p2: "map_of (fw_props (Fwnode [(''azoteq,tx-enable'', [1, 8])] [])) ''azoteq,tx-enable''
     = Some [1, 8]" by simp
  have v: "or_of_bits [0, 3, 3, 7] = 0x89" by (simp add: or_of_bits_def BIT8_def)
  from C3_parse_mask_or_of_bits [OF p1, where m = "0x55"] C3_parse_mask_or_of_bits [OF p2, where m = "0x55"] p1 v
  show ?thesis by simp
qed

subsection \<open>Sequences of steps\<close>

lemma seq_preserves:
  assumes "\<And>f s. f \<in> set fs \<Longrightarrow> p (snd (f s)) = p s"
  shows "p (snd (iqs269_seq fs s)) = p s"
  using assms
proof (induction fs arbitrary: s)
  case Nil
  then show ?case by simp
next
  case (Cons f fs)
  have f: "p (snd (f s)) = p s" using Cons.prems by simp
  have fs: "\<And>s'. p (snd (iqs269_seq fs s')) = p s'" using Cons by simp
  show ?case
  proof (cases "f s")
    case (Pair r s')
    then show ?thesis using f fs [of s'] by (cases r) simp_all
  qed
qed


lemma seq3:
  "iqs269_seq [f, g, h] s = (Inr u, s') \<Longrightarrow>
   \<exists>s1 s2. f s = (Inr (), s1) \<and> g s1 = (Inr (), s2) \<and> h s2 = (Inr (), s')"
  by (auto split: prod.splits sum.splits)


subsection \<open>Hysteresis\<close>



































subsection \<open>Reset recovery\<close>

lemma dev_init_cases:
  "iqs269_dev_init bus s =
     (let tws = (otp_option s = IQS269_OTP_OPTION_TWS \<and>
                 fw_num (ver_info s) < IQS269_VER_INFO_FW_NUM_3);
          t1 = (if tws then [Regmap_multi_reg_write iqs269_tws_init] else []);
          t2 = t1 @ [Regmap_update_bits IQS269_HALL_UI IQS269_HALL_UI_ENABLE
                       (if hall_enable s then NOT 0 else 0)];
          t3 = t2 @ [Regmap_raw_write IQS269_SYS_SETTINGS (sys_reg s)]
      in if tws \<and> isl (bus_multi_reg_write bus) then (Inl (projl (bus_multi_reg_write bus)), s, t1)
         else if isl (bus_update_bits bus) then (Inl (projl (bus_update_bits bus)), s, t2)
         else if isl (bus_raw_write bus) then (Inl (projl (bus_raw_write bus)), s, t3)
         else (Inr (), s\<lparr>ati_current := True\<rparr>, t3 @ [Usleep_range 2000 2100]))"
  by (auto simp add: iqs269_dev_init_def Let_def split: sum.splits)

lemma dev_init_no_input: "input_events (snd (snd (iqs269_dev_init bus s))) = []"
  by (simp add: dev_init_cases Let_def input_events_def)

lemma dev_init_image_writes:
  "image_writes (snd (snd (iqs269_dev_init bus s))) =
     (if (otp_option s = IQS269_OTP_OPTION_TWS \<and>
          fw_num (ver_info s) < IQS269_VER_INFO_FW_NUM_3 \<and> isl (bus_multi_reg_write bus))
         \<or> isl (bus_update_bits bus)
      then [] else [sys_reg s])"
  by (simp add: dev_init_cases Let_def image_writes_def List.map_filter_def)

text \<open>
  Claim C1. When the snapshot read by \<^verbatim>\<open>iqs269_report\<close> has the \<^verbatim>\<open>SHOW_RESET\<close> bit set, the
  report is the flags read followed by one run of \<^verbatim>\<open>iqs269_dev_init\<close> and nothing else:
  no event reaches an input device, the code of \<^verbatim>\<open>iqs269_dev_init\<close> is the code returned,
  so a failure of the rewrite is returned to the caller, and the register image is
  written once, from the \<^verbatim>\<open>sys_reg\<close> the driver holds. The image write is the last write
  of \<^verbatim>\<open>iqs269_dev_init\<close>: a run that fails in one of the writes before it stops there,
  with that error, and does not reach it.
\<close>

theorem C1_reset_recovery:
  assumes rd: "bus_read_flags bus = Inr flags"
    and rst: "be16_to_cpu (system flags) AND IQS269_SYS_FLAGS_SHOW_RESET \<noteq> 0"
  shows "iqs269_report bus s =
           (fst (iqs269_dev_init bus s), fst (snd (iqs269_dev_init bus s)),
            Regmap_raw_read IQS269_SYS_FLAGS # snd (snd (iqs269_dev_init bus s))) \<and>
         input_events (snd (snd (iqs269_report bus s))) = [] \<and>
         image_writes (snd (snd (iqs269_report bus s))) =
           (if (otp_option s = IQS269_OTP_OPTION_TWS \<and>
                fw_num (ver_info s) < IQS269_VER_INFO_FW_NUM_3 \<and>
                isl (bus_multi_reg_write bus))
               \<or> isl (bus_update_bits bus)
            then [] else [sys_reg s]) \<and>
         (\<forall>error. fst (iqs269_dev_init bus s) = Inl error \<longrightarrow>
            fst (iqs269_report bus s) = Inl error)"
proof -
  have eq: "iqs269_report bus s =
           (fst (iqs269_dev_init bus s), fst (snd (iqs269_dev_init bus s)),
            Regmap_raw_read IQS269_SYS_FLAGS # snd (snd (iqs269_dev_init bus s)))"
    using rd rst by (simp add: iqs269_report_def Let_def split: prod.split)
  have ev: "input_events (snd (snd (iqs269_report bus s))) = []"
    using dev_init_no_input [of bus s] by (simp add: eq input_events_def)
  have "image_writes (snd (snd (iqs269_report bus s))) =
      image_writes (snd (snd (iqs269_dev_init bus s)))"
    by (simp add: eq image_writes_def List.map_filter_def)
  then have im: "image_writes (snd (snd (iqs269_report bus s))) =
           (if (otp_option s = IQS269_OTP_OPTION_TWS \<and>
                fw_num (ver_info s) < IQS269_VER_INFO_FW_NUM_3 \<and>
                isl (bus_multi_reg_write bus))
               \<or> isl (bus_update_bits bus)
            then [] else [sys_reg s])"
    by (simp only: dev_init_image_writes)
  have fw: "\<forall>error. fst (iqs269_dev_init bus s) = Inl error \<longrightarrow>
            fst (iqs269_report bus s) = Inl error"
    by (simp add: eq)
  show ?thesis
    by (intro conjI) (rule eq, rule ev, rule im, rule fw)
qed


lemma reset_flags_show_reset:
  "be16_to_cpu (system reset_flags) AND IQS269_SYS_FLAGS_SHOW_RESET \<noteq> 0"
  by (simp add: reset_flags_def be16_to_cpu_def IQS269_SYS_FLAGS_SHOW_RESET_def)

text \<open>
  On the zeroed structure: with a bus that accepts every write, the image is written
  once and the report succeeds; with a Hall UI write that fails, its error is returned.
  Neither run emits an event.
\<close>

theorem C1_reset_recovery_witness:
  "bus_read_flags reset_bus = Inr reset_flags \<and>
   bus_read_flags reset_bus_hall_fails = Inr reset_flags \<and>
   be16_to_cpu (system reset_flags) AND IQS269_SYS_FLAGS_SHOW_RESET \<noteq> 0 \<and>
   fst (iqs269_report reset_bus iqs269_kzalloc) = Inr () \<and>
   input_events (snd (snd (iqs269_report reset_bus iqs269_kzalloc))) = [] \<and>
   image_writes (snd (snd (iqs269_report reset_bus iqs269_kzalloc))) = [sys_reg iqs269_kzalloc] \<and>
   fst (iqs269_report reset_bus_hall_fails iqs269_kzalloc) = Inl EREMOTEIO \<and>
   input_events (snd (snd (iqs269_report reset_bus_hall_fails iqs269_kzalloc))) = [] \<and>
   image_writes (snd (snd (iqs269_report reset_bus_hall_fails iqs269_kzalloc))) = []"
proof -
  have rd: "bus_read_flags reset_bus = Inr reset_flags" by (simp add: reset_bus_def)
  have rd': "bus_read_flags reset_bus_hall_fails = Inr reset_flags"
    by (simp add: reset_bus_hall_fails_def reset_bus_def)
  have ok: "fst (iqs269_dev_init reset_bus iqs269_kzalloc) = Inr ()"
    by (simp add: iqs269_dev_init_def reset_bus_def Let_def)
  have ko: "fst (iqs269_dev_init reset_bus_hall_fails iqs269_kzalloc) = Inl EREMOTEIO"
    by (simp add: iqs269_dev_init_def reset_bus_hall_fails_def reset_bus_def Let_def
        iqs269_kzalloc_def IQS269_OTP_OPTION_TWS_def)
  note t = C1_reset_recovery [OF rd reset_flags_show_reset, of iqs269_kzalloc]
  note u = C1_reset_recovery [OF rd' reset_flags_show_reset, of iqs269_kzalloc]
  have c1: "fst (iqs269_report reset_bus iqs269_kzalloc) = Inr ()"
    using t [THEN conjunct1] by (simp add: ok)
  have c2: "input_events (snd (snd (iqs269_report reset_bus iqs269_kzalloc))) = []"
    by (rule t [THEN conjunct2, THEN conjunct1])
  have c3: "image_writes (snd (snd (iqs269_report reset_bus iqs269_kzalloc)))
              = [sys_reg iqs269_kzalloc]"
    using t [THEN conjunct2, THEN conjunct2, THEN conjunct1]
    by (simp add: reset_bus_def iqs269_kzalloc_def IQS269_OTP_OPTION_TWS_def)
  have d1: "fst (iqs269_report reset_bus_hall_fails iqs269_kzalloc) = Inl EREMOTEIO"
    using u [THEN conjunct2, THEN conjunct2, THEN conjunct2] ko by simp
  have d2: "input_events (snd (snd (iqs269_report reset_bus_hall_fails iqs269_kzalloc))) = []"
    by (rule u [THEN conjunct2, THEN conjunct1])
  have d3: "image_writes (snd (snd (iqs269_report reset_bus_hall_fails iqs269_kzalloc))) = []"
    using u [THEN conjunct2, THEN conjunct2, THEN conjunct1]
    by (simp add: reset_bus_hall_fails_def reset_bus_def)
  show ?thesis
    by (intro conjI) (rule rd rd' reset_flags_show_reset c1 c2 c3 d1 d2 d3)+
qed

subsection \<open>Slider gestures\<close>

lemma upt_gestures: "[0..<IQS269_NUM_GESTURES] = [0, 1, 2, 3]"
  by (simp add: IQS269_NUM_GESTURES_def upt_rec)

lemma upt_sliders: "[0..<IQS269_NUM_SL] = [0, 1]"
  by (simp add: IQS269_NUM_SL_def upt_rec)

lemma and_BIT8: "g AND BIT8 j \<noteq> 0 \<longleftrightarrow> bit g j"
  by (simp add: BIT8_def bit_iff_and_push_bit_not_eq_0)

lemma momentary_test:
  "g AND (BIT8 IQS269_GESTURE_FLICK_NEG OR BIT8 IQS269_GESTURE_FLICK_POS
            OR BIT8 IQS269_GESTURE_TAP) = 0
   \<longleftrightarrow> \<not> bit g IQS269_GESTURE_FLICK_NEG \<and> \<not> bit g IQS269_GESTURE_FLICK_POS
       \<and> \<not> bit g IQS269_GESTURE_TAP"
proof -
  have e: "g AND (BIT8 IQS269_GESTURE_FLICK_NEG OR BIT8 IQS269_GESTURE_FLICK_POS
            OR BIT8 IQS269_GESTURE_TAP)
        = (g AND BIT8 IQS269_GESTURE_FLICK_NEG) OR (g AND BIT8 IQS269_GESTURE_FLICK_POS)
            OR (g AND BIT8 IQS269_GESTURE_TAP)"
    by (simp add: bit.conj_disj_distrib)
  show ?thesis
    unfolding e or_eq_0_iff
    using and_BIT8 [of g IQS269_GESTURE_FLICK_NEG] and_BIT8 [of g IQS269_GESTURE_FLICK_POS]
      and_BIT8 [of g IQS269_GESTURE_TAP]
    by blast
qed

lemma report_slider_key:
  assumes "iqs269_slider_type s i = IQS269_SLIDER_KEY"
  shows "iqs269_report_slider s flags slider_x g i =
     [Input_report_key (Slider i) (sl_code s ! i ! 0) (bit g 0),
      Input_report_key (Slider i) (sl_code s ! i ! 1) (bit g 1),
      Input_report_key (Slider i) (sl_code s ! i ! 2) (bit g 2),
      Input_report_key (Slider i) (sl_code s ! i ! 3) (bit g 3)] @
     (if \<not> bit g 3 \<and> \<not> bit g 2 \<and> \<not> bit g 0 then []
      else [Input_sync (Slider i),
            Input_report_key (Slider i) (sl_code s ! i ! 0) False,
            Input_report_key (Slider i) (sl_code s ! i ! 2) False,
            Input_report_key (Slider i) (sl_code s ! i ! 3) False]) @
     [Input_sync (Slider i)]"
  using assms
  using momentary_test [of g]
  by (simp add: iqs269_report_slider_def upt_gestures and_BIT8
      IQS269_GESTURE_HOLD_def IQS269_GESTURE_TAP_def IQS269_GESTURE_FLICK_POS_def
      IQS269_GESTURE_FLICK_NEG_def)

lemma report_slider_dev:
  "e \<in> set (iqs269_report_slider s flags slider_x g i) \<Longrightarrow> input_dev_of e = Some (Slider i)"
  by (auto simp add: iqs269_report_slider_def Let_def split: iqs269_slider_id.splits if_splits)

lemma report_slider_on_same:
  "input_events_on (Slider i) (iqs269_report_slider s flags slider_x g i)
     = iqs269_report_slider s flags slider_x g i"
  unfolding input_events_on_def
  by (rule filter_True) (simp add: report_slider_dev)

lemma report_slider_on_other:
  "k \<noteq> i \<Longrightarrow> input_events_on (Slider i) (iqs269_report_slider s flags slider_x g k) = []"
  unfolding input_events_on_def
  by (rule filter_False) (auto dest: report_slider_dev)

lemma report_sliders_on:
  assumes "i < IQS269_NUM_SL"
  shows "input_events_on (Slider i)
           (iqs269_report_sliders s flags slider_x g [0..<IQS269_NUM_SL])
         = iqs269_report_slider s flags slider_x (drop_bit (i * IQS269_NUM_GESTURES) g) i"
proof -
  have app: "\<And>d xs ys. input_events_on d (xs @ ys) = input_events_on d xs @ input_events_on d ys"
    by (simp add: input_events_on_def)
  from assms have "i = 0 \<or> i = 1" by (auto simp add: IQS269_NUM_SL_def)
  then show ?thesis
  proof
    assume "i = 0"
    then show ?thesis
      by (simp add: upt_sliders Let_def app report_slider_on_same report_slider_on_other)
  next
    assume "i = 1"
    then show ?thesis
      by (simp add: upt_sliders Let_def app report_slider_on_same report_slider_on_other)
  qed
qed

lemma report_chan_dev:
  "e \<in> set (iqs269_report_chan s state i j) \<Longrightarrow> input_dev_of e = Some Keypad"
  by (auto simp add: iqs269_report_chan_def split: if_splits)

lemma report_event_on_slider:
  "input_events_on (Slider k) (iqs269_report_event s flags i) = []"
  unfolding input_events_on_def
  by (rule filter_False) (auto simp add: iqs269_report_event_def Let_def dest: report_chan_dev)

lemma report_events_on_slider:
  "input_events_on (Slider k) (concat (map (iqs269_report_event s flags) is)) = []"
proof -
  have "\<And>e. e \<in> set (concat (map (iqs269_report_event s flags) is)) \<Longrightarrow>
          input_dev_of e \<noteq> Some (Slider k)"
    by (auto simp add: iqs269_report_event_def Let_def dest: report_chan_dev)
  then show ?thesis
    unfolding input_events_on_def by (intro filter_False) blast
qed

lemma report_decode:
  assumes rd: "bus_read_flags bus = Inr flags"
    and rst: "be16_to_cpu (system flags) AND IQS269_SYS_FLAGS_SHOW_RESET = 0"
    and ati: "be16_to_cpu (system flags) AND IQS269_SYS_FLAGS_IN_ATI = 0"
    and ok: "fst (iqs269_report bus s) = Inr ()"
    and i: "i < IQS269_NUM_SL"
  shows "input_events_on (Slider i) (snd (snd (iqs269_report bus s)))
         = iqs269_report_slider s flags
             (case bus_read_slider_x bus of Inl _ \<Rightarrow> [0, 0] | Inr x \<Rightarrow>
                if iqs269_slider_type s 0 = IQS269_SLIDER_RAW \<or>
                   iqs269_slider_type s 1 = IQS269_SLIDER_RAW then x else [0, 0])
             (drop_bit (i * IQS269_NUM_GESTURES) (gesture flags)) i"
proof -
  have app: "\<And>d xs ys. input_events_on d (xs @ ys) = input_events_on d xs @ input_events_on d ys"
    by (simp add: input_events_on_def)
  have nil: "\<And>d. input_events_on d [] = []" by (simp add: input_events_on_def)
  have c: "\<And>d x xs. input_events_on d (x # xs) =
      (if input_dev_of x = Some d then x # input_events_on d xs else input_events_on d xs)"
    by (simp add: input_events_on_def)
  show ?thesis
    using rd rst ati ok
    by (auto simp add: iqs269_report_def Let_def app nil c report_sliders_on [OF i]
        report_events_on_slider split: sum.splits)
qed


lemma slider_gesture_bits:
  assumes "\<forall>j<IQS269_NUM_GESTURES. bit g (i * IQS269_NUM_GESTURES + j) \<longleftrightarrow> j = k"
  shows "bit (drop_bit (i * IQS269_NUM_GESTURES) g) 0 \<longleftrightarrow> k = 0"
    and "bit (drop_bit (i * IQS269_NUM_GESTURES) g) (Suc 0) \<longleftrightarrow> k = 1"
    and "bit (drop_bit (i * IQS269_NUM_GESTURES) g) 2 \<longleftrightarrow> k = 2"
    and "bit (drop_bit (i * IQS269_NUM_GESTURES) g) 3 \<longleftrightarrow> k = 3"
  using assms [rule_format, of 0] assms [rule_format, of 1] assms [rule_format, of 2]
    assms [rule_format, of 3]
  by (auto simp add: bit_drop_bit_eq IQS269_NUM_GESTURES_def)

text \<open>
  Claim C2. In a report that decodes a clean snapshot (no reset, no ATI in progress, no
  bus error), for a slider in gesture-key mode: if tap is the only one of the slider's
  four gesture bits that is set, the slider's device receives the press of the tap code,
  the state of the three other codes, a sync, then the release of the tap code and of
  the two flick codes, and a sync; if hold is the only one set, it receives the state of
  the four codes, with the hold code pressed, and one sync: the hold code is the only key
  reported pressed and no release follows.
\<close>

theorem C2_momentary_gestures:
  assumes rd: "bus_read_flags bus = Inr flags"
    and rst: "be16_to_cpu (system flags) AND IQS269_SYS_FLAGS_SHOW_RESET = 0"
    and ati: "be16_to_cpu (system flags) AND IQS269_SYS_FLAGS_IN_ATI = 0"
    and ok: "fst (iqs269_report bus s) = Inr ()"
    and i: "i < IQS269_NUM_SL"
    and key: "iqs269_slider_type s i = IQS269_SLIDER_KEY"
  shows "((\<forall>j<IQS269_NUM_GESTURES.
             bit (gesture flags) (i * IQS269_NUM_GESTURES + j) \<longleftrightarrow> j = IQS269_GESTURE_TAP) \<longrightarrow>
          input_events_on (Slider i) (snd (snd (iqs269_report bus s))) =
            [Input_report_key (Slider i) (sl_code s ! i ! IQS269_GESTURE_TAP) True,
             Input_report_key (Slider i) (sl_code s ! i ! IQS269_GESTURE_HOLD) False,
             Input_report_key (Slider i) (sl_code s ! i ! IQS269_GESTURE_FLICK_POS) False,
             Input_report_key (Slider i) (sl_code s ! i ! IQS269_GESTURE_FLICK_NEG) False,
             Input_sync (Slider i),
             Input_report_key (Slider i) (sl_code s ! i ! IQS269_GESTURE_TAP) False,
             Input_report_key (Slider i) (sl_code s ! i ! IQS269_GESTURE_FLICK_POS) False,
             Input_report_key (Slider i) (sl_code s ! i ! IQS269_GESTURE_FLICK_NEG) False,
             Input_sync (Slider i)]) \<and>
         ((\<forall>j<IQS269_NUM_GESTURES.
             bit (gesture flags) (i * IQS269_NUM_GESTURES + j) \<longleftrightarrow> j = IQS269_GESTURE_HOLD) \<longrightarrow>
          input_events_on (Slider i) (snd (snd (iqs269_report bus s))) =
            [Input_report_key (Slider i) (sl_code s ! i ! IQS269_GESTURE_TAP) False,
             Input_report_key (Slider i) (sl_code s ! i ! IQS269_GESTURE_HOLD) True,
             Input_report_key (Slider i) (sl_code s ! i ! IQS269_GESTURE_FLICK_POS) False,
             Input_report_key (Slider i) (sl_code s ! i ! IQS269_GESTURE_FLICK_NEG) False,
             Input_sync (Slider i)] \<and>
          filter is_key_press (input_events_on (Slider i) (snd (snd (iqs269_report bus s)))) =
            [Input_report_key (Slider i) (sl_code s ! i ! IQS269_GESTURE_HOLD) True])"
proof (intro conjI impI)
  assume tap: "\<forall>j<IQS269_NUM_GESTURES.
             bit (gesture flags) (i * IQS269_NUM_GESTURES + j) \<longleftrightarrow> j = IQS269_GESTURE_TAP"
  show "input_events_on (Slider i) (snd (snd (iqs269_report bus s))) =
            [Input_report_key (Slider i) (sl_code s ! i ! IQS269_GESTURE_TAP) True,
             Input_report_key (Slider i) (sl_code s ! i ! IQS269_GESTURE_HOLD) False,
             Input_report_key (Slider i) (sl_code s ! i ! IQS269_GESTURE_FLICK_POS) False,
             Input_report_key (Slider i) (sl_code s ! i ! IQS269_GESTURE_FLICK_NEG) False,
             Input_sync (Slider i),
             Input_report_key (Slider i) (sl_code s ! i ! IQS269_GESTURE_TAP) False,
             Input_report_key (Slider i) (sl_code s ! i ! IQS269_GESTURE_FLICK_POS) False,
             Input_report_key (Slider i) (sl_code s ! i ! IQS269_GESTURE_FLICK_NEG) False,
             Input_sync (Slider i)]"
    unfolding report_decode [OF rd rst ati ok i] report_slider_key [OF key]
    by (simp add: slider_gesture_bits [OF tap] IQS269_GESTURE_TAP_def IQS269_GESTURE_HOLD_def
        IQS269_GESTURE_FLICK_POS_def IQS269_GESTURE_FLICK_NEG_def)
next
  assume hold: "\<forall>j<IQS269_NUM_GESTURES.
             bit (gesture flags) (i * IQS269_NUM_GESTURES + j) \<longleftrightarrow> j = IQS269_GESTURE_HOLD"
  show h: "input_events_on (Slider i) (snd (snd (iqs269_report bus s))) =
            [Input_report_key (Slider i) (sl_code s ! i ! IQS269_GESTURE_TAP) False,
             Input_report_key (Slider i) (sl_code s ! i ! IQS269_GESTURE_HOLD) True,
             Input_report_key (Slider i) (sl_code s ! i ! IQS269_GESTURE_FLICK_POS) False,
             Input_report_key (Slider i) (sl_code s ! i ! IQS269_GESTURE_FLICK_NEG) False,
             Input_sync (Slider i)]"
    unfolding report_decode [OF rd rst ati ok i] report_slider_key [OF key]
    by (simp add: slider_gesture_bits [OF hold] IQS269_GESTURE_TAP_def IQS269_GESTURE_HOLD_def
        IQS269_GESTURE_FLICK_POS_def IQS269_GESTURE_FLICK_NEG_def)
  show "filter is_key_press (input_events_on (Slider i) (snd (snd (iqs269_report bus s)))) =
            [Input_report_key (Slider i) (sl_code s ! i ! IQS269_GESTURE_HOLD) True]"
    unfolding h by simp
qed

lemma gesture_state_types:
  "iqs269_slider_type gesture_state 0 = IQS269_SLIDER_KEY"
  "iqs269_slider_type gesture_state (Suc 0) = IQS269_SLIDER_NONE"
  by (simp_all add: iqs269_slider_type_def gesture_state_def iqs269_kzalloc_def
      iqs269_sys_reg_zero_def upt_gestures KEY_RESERVED_def IQS269_OTP_OPTION_HOLD_def)

lemma bit_2_int: "bit (2 :: int) j \<longleftrightarrow> j = Suc 0"
  using bit_exp_iff [where ?'a = int, of 1 j] by auto

text \<open>Slider 0 with tap on key 30 and hold on key 31, for a tap and for a hold snapshot.\<close>

theorem C2_momentary_gestures_witness:
  "bus_read_flags tap_bus = Inr tap_flags \<and> bus_read_flags hold_bus = Inr hold_flags \<and>
   be16_to_cpu (system tap_flags) AND IQS269_SYS_FLAGS_SHOW_RESET = 0 \<and>
   be16_to_cpu (system tap_flags) AND IQS269_SYS_FLAGS_IN_ATI = 0 \<and>
   be16_to_cpu (system hold_flags) AND IQS269_SYS_FLAGS_SHOW_RESET = 0 \<and>
   be16_to_cpu (system hold_flags) AND IQS269_SYS_FLAGS_IN_ATI = 0 \<and>
   fst (iqs269_report tap_bus gesture_state) = Inr () \<and>
   fst (iqs269_report hold_bus gesture_state) = Inr () \<and>
   (0 :: nat) < IQS269_NUM_SL \<and>
   iqs269_slider_type gesture_state 0 = IQS269_SLIDER_KEY \<and>
   gesture tap_flags = BIT8 IQS269_GESTURE_TAP \<and>
   gesture hold_flags = BIT8 IQS269_GESTURE_HOLD \<and>
   input_events_on (Slider 0) (snd (snd (iqs269_report tap_bus gesture_state))) =
     [Input_report_key (Slider 0) 30 True, Input_report_key (Slider 0) 31 False,
      Input_report_key (Slider 0) 0 False, Input_report_key (Slider 0) 0 False,
      Input_sync (Slider 0),
      Input_report_key (Slider 0) 30 False, Input_report_key (Slider 0) 0 False,
      Input_report_key (Slider 0) 0 False, Input_sync (Slider 0)] \<and>
   input_events_on (Slider 0) (snd (snd (iqs269_report hold_bus gesture_state))) =
     [Input_report_key (Slider 0) 30 False, Input_report_key (Slider 0) 31 True,
      Input_report_key (Slider 0) 0 False, Input_report_key (Slider 0) 0 False,
      Input_sync (Slider 0)]"
proof -
  have rd: "bus_read_flags tap_bus = Inr tap_flags" "bus_read_flags hold_bus = Inr hold_flags"
    by (simp_all add: tap_bus_def hold_bus_def reset_bus_def)
  have fl: "be16_to_cpu (system tap_flags) AND IQS269_SYS_FLAGS_SHOW_RESET = 0"
    "be16_to_cpu (system tap_flags) AND IQS269_SYS_FLAGS_IN_ATI = 0"
    "be16_to_cpu (system hold_flags) AND IQS269_SYS_FLAGS_SHOW_RESET = 0"
    "be16_to_cpu (system hold_flags) AND IQS269_SYS_FLAGS_IN_ATI = 0"
    by (simp_all add: tap_flags_def hold_flags_def be16_to_cpu_def)
  have ok: "fst (iqs269_report tap_bus gesture_state) = Inr ()"
    "fst (iqs269_report hold_bus gesture_state) = Inr ()"
    using rd fl by (simp_all add: iqs269_report_def Let_def gesture_state_types)
  have i: "(0 :: nat) < IQS269_NUM_SL" by (simp add: IQS269_NUM_SL_def)
  have tap: "\<forall>j<IQS269_NUM_GESTURES.
      bit (gesture tap_flags) (0 * IQS269_NUM_GESTURES + j) \<longleftrightarrow> j = IQS269_GESTURE_TAP"
    by (simp add: tap_flags_def IQS269_GESTURE_TAP_def bit_1_iff)
  have hold: "\<forall>j<IQS269_NUM_GESTURES.
      bit (gesture hold_flags) (0 * IQS269_NUM_GESTURES + j) \<longleftrightarrow> j = IQS269_GESTURE_HOLD"
    by (auto simp add: hold_flags_def IQS269_GESTURE_HOLD_def bit_2_int IQS269_NUM_GESTURES_def)
  have codes: "sl_code gesture_state ! 0 = [30, 31, 0, 0]"
    by (simp add: gesture_state_def)
  note t = C2_momentary_gestures [OF rd(1) fl(1) fl(2) ok(1) i gesture_state_types(1)]
  note h = C2_momentary_gestures [OF rd(2) fl(3) fl(4) ok(2) i gesture_state_types(1)]
  have te: "input_events_on (Slider 0) (snd (snd (iqs269_report tap_bus gesture_state))) =
     [Input_report_key (Slider 0) 30 True, Input_report_key (Slider 0) 31 False,
      Input_report_key (Slider 0) 0 False, Input_report_key (Slider 0) 0 False,
      Input_sync (Slider 0),
      Input_report_key (Slider 0) 30 False, Input_report_key (Slider 0) 0 False,
      Input_report_key (Slider 0) 0 False, Input_sync (Slider 0)]"
    using t [THEN conjunct1, THEN mp, OF tap]
    by (simp add: codes IQS269_GESTURE_TAP_def IQS269_GESTURE_HOLD_def
        IQS269_GESTURE_FLICK_POS_def IQS269_GESTURE_FLICK_NEG_def)
  have he: "input_events_on (Slider 0) (snd (snd (iqs269_report hold_bus gesture_state))) =
     [Input_report_key (Slider 0) 30 False, Input_report_key (Slider 0) 31 True,
      Input_report_key (Slider 0) 0 False, Input_report_key (Slider 0) 0 False,
      Input_sync (Slider 0)]"
    using h [THEN conjunct2, THEN mp, OF hold, THEN conjunct1]
    by (simp add: codes IQS269_GESTURE_TAP_def IQS269_GESTURE_HOLD_def
        IQS269_GESTURE_FLICK_POS_def IQS269_GESTURE_FLICK_NEG_def)
  have g: "gesture tap_flags = BIT8 IQS269_GESTURE_TAP"
    "gesture hold_flags = BIT8 IQS269_GESTURE_HOLD"
    by (simp_all add: tap_flags_def hold_flags_def BIT8_def IQS269_GESTURE_TAP_def
        IQS269_GESTURE_HOLD_def)
  show ?thesis
    by (intro conjI) (rule rd fl ok i gesture_state_types(1) g te he)+
qed

subsection \<open>The firmware revision through the configuration\<close>

lemma u32_prop_preserves:
  assumes "\<And>val s. p (store val s) = p s"
  shows "p (snd (iqs269_u32_prop dev n invalid store s)) = p s"
  using assms by (simp add: iqs269_u32_prop_def split: sum.split)

lemma ver_info_sys_update [simp]: "ver_info (iqs269_sys_update f s) = ver_info s"
  by (simp add: iqs269_sys_update_def)

lemma ver_info_ch_update [simp]: "ver_info (iqs269_ch_update reg f s) = ver_info s"
  by (simp add: iqs269_ch_update_def)

lemma ver_info_filter: "ver_info (snd (iqs269_parse_prop_filter dev s)) = ver_info s"
  unfolding iqs269_parse_prop_filter_def
  by (rule seq_preserves) (auto intro!: u32_prop_preserves)

lemma ver_info_rates: "ver_info (snd (iqs269_parse_prop_rates dev s)) = ver_info s"
  unfolding iqs269_parse_prop_rates_def
  by (rule seq_preserves) (auto intro!: u32_prop_preserves)

lemma ver_info_misc: "ver_info (snd (iqs269_parse_prop_misc dev s)) = ver_info s"
  by (simp add: iqs269_parse_prop_misc_def split: prod.split sum.split)

lemma ver_info_select: "ver_info (snd (iqs269_parse_prop_select dev s)) = ver_info s"
  by (simp add: iqs269_parse_prop_select_def Let_def split: prod.split sum.split)

lemma ver_info_parse_mask_step:
  "ver_info (snd (iqs269_parse_chan_rx_tx ch_node reg s)) = ver_info s"
  "ver_info (snd (iqs269_parse_chan_assoc ch_node reg s)) = ver_info s"
  by (simp_all add: iqs269_parse_chan_rx_tx_def iqs269_parse_chan_assoc_def Let_def
      split: prod.split sum.split)

lemma ver_info_chan_select:
  "ver_info (snd (iqs269_parse_chan_select ch_node reg s)) = ver_info s"
  by (simp add: iqs269_parse_chan_select_def Let_def)

lemma ver_info_chan_engine:
  "ver_info (snd (iqs269_parse_chan_engine ch_node reg s)) = ver_info s"
  by (simp add: iqs269_parse_chan_engine_def Let_def split: prod.split sum.split)

lemma ver_info_ati_set:
  "ver_info (snd (iqs269_ati_mode_set s ch v)) = ver_info s"
  "ver_info (snd (iqs269_ati_base_set s ch v)) = ver_info s"
  "ver_info (snd (iqs269_ati_target_set s ch v)) = ver_info s"
  by (simp_all add: iqs269_ati_mode_set_def iqs269_ati_base_set_def iqs269_ati_target_set_def
      Let_def split: option.split)

lemma ver_info_chan_ati:
  "ver_info (snd (iqs269_parse_chan_ati ch_node reg s)) = ver_info s"
  unfolding iqs269_parse_chan_ati_def
  by (rule seq_preserves) (auto simp add: ver_info_ati_set split: sum.split)

lemma ver_info_chan_hyst:
  "ver_info (snd (iqs269_parse_chan_hyst ev_node reg i s)) = ver_info s"
  by (simp add: iqs269_parse_chan_hyst_def split: sum.split)

lemma ver_info_parse_code: "ver_info (iqs269_parse_code i reg val s) = ver_info s"
  by (simp add: iqs269_parse_code_def Let_def)

lemma ver_info_chan_event:
  "ver_info (snd (iqs269_parse_chan_event ch_node reg i s)) = ver_info s"
proof (cases "fwnode_get_named_child_node ch_node (ev_name (iqs269_events ! i))")
  case None
  then show ?thesis by (simp add: iqs269_parse_chan_event_def)
next
  case (Some ev_node)
  show ?thesis
    unfolding iqs269_parse_chan_event_def Some option.case
    by (rule seq_preserves)
       (auto simp add: ver_info_chan_hyst ver_info_parse_code split: sum.split)
qed

lemma ver_info_parse_chan: "ver_info (snd (iqs269_parse_chan s ch_node)) = ver_info s"
proof (cases "fwnode_property_read_u32 ch_node ''reg''")
  case (Inl e)
  then show ?thesis by (simp add: iqs269_parse_chan_def)
next
  case (Inr reg)
  show ?thesis
  proof (cases "unat reg \<ge> IQS269_NUM_CH")
    case True
    then show ?thesis using Inr by (simp add: iqs269_parse_chan_def)
  next
    case False
    have "ver_info (snd (iqs269_seq
                 ([iqs269_parse_chan_select ch_node (unat reg),
                   iqs269_parse_chan_rx_tx ch_node (unat reg),
                   iqs269_parse_chan_engine ch_node (unat reg),
                   iqs269_parse_chan_ati ch_node reg,
                   iqs269_parse_chan_assoc ch_node (unat reg)] @
                  map (iqs269_parse_chan_event ch_node (unat reg)) [0..<length iqs269_events])
                 s)) = ver_info s"
      by (rule seq_preserves)
         (auto simp add: ver_info_chan_select ver_info_parse_mask_step ver_info_chan_engine
            ver_info_chan_ati ver_info_chan_event)
    then show ?thesis using Inr False by (simp add: iqs269_parse_chan_def)
  qed
qed

lemma ver_info_channels: "ver_info (snd (iqs269_parse_prop_channels dev s)) = ver_info s"
proof -
  have "ver_info (snd (iqs269_seq (map (\<lambda>ch_node s. iqs269_parse_chan s ch_node)
      (map snd (fw_children dev))) s)) = ver_info s"
    by (rule seq_preserves) (auto simp add: ver_info_parse_chan)
  then show ?thesis
    by (cases "iqs269_seq (map (\<lambda>ch_node s. iqs269_parse_chan s ch_node)
      (map snd (fw_children dev))) s")
       (auto simp add: iqs269_parse_prop_channels_def split: sum.split)
qed

lemma ver_info_stages:
  "ver_info (snd (iqs269_seq
                [iqs269_parse_prop_filter dev, iqs269_parse_prop_rates dev,
                 iqs269_parse_prop_misc dev, iqs269_parse_prop_select dev,
                 iqs269_parse_prop_channels dev] s)) = ver_info s"
  by (rule seq_preserves)
     (auto simp add: ver_info_filter ver_info_rates ver_info_misc ver_info_select
        ver_info_channels)



subsection \<open>Gesture timeouts and threshold\<close>

lemma timeout_units:
  fixes val :: u32
  shows "val \<le> 4080 div 4 \<Longrightarrow> unat (ucast (val div 4) :: u8) = unat val div 4"
    and "val \<le> 4080 div 1 \<Longrightarrow> unat (ucast (val div 16) :: u8) = unat val div 16"
    and "val \<le> 255 \<Longrightarrow> unat (ucast val :: u8) = unat val"
  by (simp_all add: unsigned_ucast_eq unat_div word_le_nat_alt take_bit_nat_eq_self)

lemma parse_prop_keycodes_units:
  assumes kc: "device_property_present dev ''linux,keycodes''"
    and ok: "iqs269_parse_prop_keycodes dev general0 s = (Inr general1, s')"
  shows "(\<forall>val. device_property_read_u32 dev ''azoteq,timeout-tap-ms'' = Inr val \<longrightarrow>
            unat (timeout_tap (sys_reg s')) =
              unat val div (if fw_num (ver_info s) < IQS269_VER_INFO_FW_NUM_3 then 4 else 16)) \<and>
         (\<forall>val. device_property_read_u32 dev ''azoteq,timeout-swipe-ms'' = Inr val \<longrightarrow>
            unat (timeout_swipe (sys_reg s')) =
              unat val div (if fw_num (ver_info s) < IQS269_VER_INFO_FW_NUM_3 then 4 else 16)) \<and>
         (\<forall>val. device_property_read_u32 dev ''azoteq,thresh-swipe'' = Inr val \<longrightarrow>
            unat (thresh_swipe (sys_reg s')) = unat val)"
proof -
  define scale :: u32 where
    "scale = (if fw_num (ver_info s) < IQS269_VER_INFO_FW_NUM_3 then 4 else 1)"
  have div: "16 div scale = (if fw_num (ver_info s) < IQS269_VER_INFO_FW_NUM_3 then 4 else 16)"
    by (simp add: scale_def)
  from kc ok obtain codes u s4 where
    seq: "iqs269_seq
               [\<lambda>s. case device_property_read_u32 dev ''azoteq,timeout-tap-ms'' of
                       Inl _ \<Rightarrow> (Inr (), s)
                     | Inr val \<Rightarrow>
                         if val > IQS269_TIMEOUT_TAP_MS_MAX div scale then (Inl EINVAL, s)
                         else (Inr (), s\<lparr>sys_reg := (sys_reg s)
                                 \<lparr>timeout_tap := ucast (val div (16 div scale))\<rparr>\<rparr>),
                \<lambda>s. case device_property_read_u32 dev ''azoteq,timeout-swipe-ms'' of
                       Inl _ \<Rightarrow> (Inr (), s)
                     | Inr val \<Rightarrow>
                         if val > IQS269_TIMEOUT_SWIPE_MS_MAX div scale then (Inl EINVAL, s)
                         else (Inr (), s\<lparr>sys_reg := (sys_reg s)
                                 \<lparr>timeout_swipe := ucast (val div (16 div scale))\<rparr>\<rparr>),
                \<lambda>s. case device_property_read_u32 dev ''azoteq,thresh-swipe'' of
                       Inl _ \<Rightarrow> (Inr (), s)
                     | Inr val \<Rightarrow>
                         if val > IQS269_THRESH_SWIPE_MAX then (Inl EINVAL, s)
                         else (Inr (), s\<lparr>sys_reg := (sys_reg s)
                                 \<lparr>thresh_swipe := ucast val\<rparr>\<rparr>)]
               (s\<lparr>sl_code := iqs269_store_sl_code codes (sl_code s)\<rparr>) = (Inr u, s4)"
    and s': "s' = s4\<lparr>sys_reg := (sys_reg s4)
                   \<lparr>event_mask := event_mask (sys_reg s4)
                      AND NOT IQS269_EVENT_MASK_GESTURE\<rparr>\<rparr>"
    unfolding iqs269_parse_prop_keycodes_def Let_def scale_def
    by (auto split: sum.splits if_splits prod.splits)
  from seq3 [OF seq] obtain s1 s2 where
    a: "(case device_property_read_u32 dev ''azoteq,timeout-tap-ms'' of
                       Inl _ \<Rightarrow> (Inr (), s\<lparr>sl_code := iqs269_store_sl_code codes (sl_code s)\<rparr>)
                     | Inr val \<Rightarrow>
                         if val > IQS269_TIMEOUT_TAP_MS_MAX div scale
                         then (Inl EINVAL, s\<lparr>sl_code := iqs269_store_sl_code codes (sl_code s)\<rparr>)
                         else (Inr (), s\<lparr>sl_code := iqs269_store_sl_code codes (sl_code s)\<rparr>
                                 \<lparr>sys_reg := (sys_reg (s\<lparr>sl_code := iqs269_store_sl_code codes (sl_code s)\<rparr>))
                                 \<lparr>timeout_tap := ucast (val div (16 div scale))\<rparr>\<rparr>)) = (Inr (), s1)"
    and b: "(case device_property_read_u32 dev ''azoteq,timeout-swipe-ms'' of
                       Inl _ \<Rightarrow> (Inr (), s1)
                     | Inr val \<Rightarrow>
                         if val > IQS269_TIMEOUT_SWIPE_MS_MAX div scale then (Inl EINVAL, s1)
                         else (Inr (), s1\<lparr>sys_reg := (sys_reg s1)
                                 \<lparr>timeout_swipe := ucast (val div (16 div scale))\<rparr>\<rparr>)) = (Inr (), s2)"
    and c: "(case device_property_read_u32 dev ''azoteq,thresh-swipe'' of
                       Inl _ \<Rightarrow> (Inr (), s2)
                     | Inr val \<Rightarrow>
                         if val > IQS269_THRESH_SWIPE_MAX then (Inl EINVAL, s2)
                         else (Inr (), s2\<lparr>sys_reg := (sys_reg s2)
                                 \<lparr>thresh_swipe := ucast val\<rparr>\<rparr>)) = (Inr (), s4)"
    by blast
  have tap: "\<forall>val. device_property_read_u32 dev ''azoteq,timeout-tap-ms'' = Inr val \<longrightarrow>
            timeout_tap (sys_reg s') = ucast (val div (16 div scale)) \<and>
            val \<le> IQS269_TIMEOUT_TAP_MS_MAX div scale"
    using a b c by (auto simp add: s' split: sum.splits if_splits)
  have swipe: "\<forall>val. device_property_read_u32 dev ''azoteq,timeout-swipe-ms'' = Inr val \<longrightarrow>
            timeout_swipe (sys_reg s') = ucast (val div (16 div scale)) \<and>
            val \<le> IQS269_TIMEOUT_SWIPE_MS_MAX div scale"
    using a b c by (auto simp add: s' split: sum.splits if_splits)
  have th: "\<forall>val. device_property_read_u32 dev ''azoteq,thresh-swipe'' = Inr val \<longrightarrow>
            thresh_swipe (sys_reg s') = ucast val \<and> val \<le> IQS269_THRESH_SWIPE_MAX"
    using a b c by (auto simp add: s' split: sum.splits if_splits)
  show ?thesis
  proof (cases "fw_num (ver_info s) < IQS269_VER_INFO_FW_NUM_3")
    case True
    then have sc: "scale = 4" by (simp add: scale_def)
    from tap swipe th True show ?thesis
      unfolding sc IQS269_TIMEOUT_TAP_MS_MAX_def IQS269_TIMEOUT_SWIPE_MS_MAX_def
        IQS269_THRESH_SWIPE_MAX_def
      by (auto simp add: timeout_units(3) timeout_units(1) [simplified])
  next
    case False
    then have sc: "scale = 1" by (simp add: scale_def)
    from tap swipe th False show ?thesis
      unfolding sc IQS269_TIMEOUT_TAP_MS_MAX_def IQS269_TIMEOUT_SWIPE_MS_MAX_def
        IQS269_THRESH_SWIPE_MAX_def
      by (auto simp add: timeout_units(3) timeout_units(2) [simplified])
  qed
qed


lemma finish_keeps_gesture_fields:
  "timeout_tap (sys_reg (iqs269_parse_prop_finish dev g s)) = timeout_tap (sys_reg s)"
  "timeout_swipe (sys_reg (iqs269_parse_prop_finish dev g s)) = timeout_swipe (sys_reg s)"
  "thresh_swipe (sys_reg (iqs269_parse_prop_finish dev g s)) = thresh_swipe (sys_reg s)"
  by (simp_all add: iqs269_parse_prop_finish_def iqs269_sys_update_def Let_def)

lemma parse_prop_success:
  assumes "iqs269_parse_prop dev bus s = (Inr (), s')"
  shows "\<exists>s1 general0 general1 s2.
           ver_info s1 = ver_info s \<and>
           iqs269_parse_prop_keycodes dev general0 s1 = (Inr general1, s2) \<and>
           s' = iqs269_parse_prop_finish dev general1 s2"
proof -
  define s0 where "s0 = s\<lparr>hall_enable := device_property_present dev ''azoteq,hall-enable''\<rparr>"
  from assms obtain image0 where rd: "bus_read_sys_settings bus = Inr image0"
    by (cases "bus_read_sys_settings bus") (simp_all add: iqs269_parse_prop_def Let_def)
  define st where "st = iqs269_seq
                [iqs269_parse_prop_filter dev, iqs269_parse_prop_rates dev,
                 iqs269_parse_prop_misc dev, iqs269_parse_prop_select dev,
                 iqs269_parse_prop_channels dev] (s0\<lparr>sys_reg := image0\<rparr>)"
  have v: "ver_info (snd st) = ver_info s"
    unfolding st_def by (simp only: ver_info_stages) (simp add: s0_def)
  have unf: "iqs269_parse_prop dev bus s =
      (case st of
           (Inl error, s1) \<Rightarrow> (Inl error, s1)
         | (Inr _, s1) \<Rightarrow>
           (case iqs269_parse_prop_general dev s1 of
              Inl error \<Rightarrow> (Inl error, s1)
            | Inr general0 \<Rightarrow>
              (case iqs269_parse_prop_keycodes dev general0 s1 of
                 (Inl error, s2) \<Rightarrow> (Inl error, s2)
               | (Inr general1, s2) \<Rightarrow> (Inr (), iqs269_parse_prop_finish dev general1 s2))))"
    by (simp only: iqs269_parse_prop_def Let_def rd st_def s0_def sum.case)
  obtain r s1 where st: "st = (r, s1)" by (cases st)
  from assms show ?thesis
    unfolding unf st using v
    by (auto simp add: st split: sum.splits prod.splits)
qed

text \<open>
  Claim C9, amended. When \<^verbatim>\<open>iqs269_parse_prop\<close> succeeds on a device with gesture key
  codes, a tap timeout and a swipe timeout are stored divided by a step that depends on
  the firmware revision: 4 ms on firmware older than \<^verbatim>\<open>IQS269_VER_INFO_FW_NUM_3\<close>, 16 ms
  otherwise. A swipe threshold is stored as supplied, whatever the firmware revision.
\<close>

theorem C9_gesture_scaling:
  assumes kc: "device_property_present dev ''linux,keycodes''"
    and ok: "iqs269_parse_prop dev bus s = (Inr (), s')"
  shows "(\<forall>val. device_property_read_u32 dev ''azoteq,timeout-tap-ms'' = Inr val \<longrightarrow>
            unat (timeout_tap (sys_reg s')) =
              unat val div (if fw_num (ver_info s) < IQS269_VER_INFO_FW_NUM_3 then 4 else 16)) \<and>
         (\<forall>val. device_property_read_u32 dev ''azoteq,timeout-swipe-ms'' = Inr val \<longrightarrow>
            unat (timeout_swipe (sys_reg s')) =
              unat val div (if fw_num (ver_info s) < IQS269_VER_INFO_FW_NUM_3 then 4 else 16)) \<and>
         (\<forall>val. device_property_read_u32 dev ''azoteq,thresh-swipe'' = Inr val \<longrightarrow>
            unat (thresh_swipe (sys_reg s')) = unat val)"
proof -
  from parse_prop_success [OF ok] obtain s1 general0 general1 s2 where
    v: "ver_info s1 = ver_info s"
    and k: "iqs269_parse_prop_keycodes dev general0 s1 = (Inr general1, s2)"
    and s': "s' = iqs269_parse_prop_finish dev general1 s2"
    by blast
  from parse_prop_keycodes_units [OF kc k] show ?thesis
    unfolding s' finish_keeps_gesture_fields v .
qed

lemmas parse_prop_eval =
  iqs269_parse_prop_def iqs269_parse_prop_filter_def iqs269_parse_prop_rates_def
  iqs269_parse_prop_misc_def iqs269_parse_prop_misc_words_def iqs269_parse_prop_select_def
  iqs269_parse_prop_channels_def iqs269_parse_prop_general_def iqs269_parse_prop_finish_def
  iqs269_parse_prop_keycodes_def iqs269_u32_prop_def iqs269_flag_prop_def iqs269_sys_update_def
  iqs269_slider_type_def iqs269_store_sl_code_def
  device_property_present_def device_property_count_u32_def
  device_property_read_u32_array_def device_property_read_u32_def
  fwnode_property_present_def fwnode_property_count_u32_def
  fwnode_property_read_u32_array_def fwnode_property_read_u32_def
  gesture_dev_def early_fw_state_def late_fw_state_def iqs269_kzalloc_def reset_bus_def
  iqs269_sys_reg_zero_def Let_def IQS269_NUM_GESTURES_def IQS269_NUM_SL_def
  IQS269_VER_INFO_FW_NUM_3_def IQS269_TIMEOUT_TAP_MS_MAX_def IQS269_TIMEOUT_SWIPE_MS_MAX_def
  IQS269_THRESH_SWIPE_MAX_def IQS269_OTP_OPTION_HOLD_def

lemma gesture_dev_early:
  "fst (iqs269_parse_prop gesture_dev reset_bus early_fw_state) = Inr ()"
  "timeout_tap (sys_reg (snd (iqs269_parse_prop gesture_dev reset_bus early_fw_state))) = 200"
  "timeout_swipe (sys_reg (snd (iqs269_parse_prop gesture_dev reset_bus early_fw_state))) = 120"
  "thresh_swipe (sys_reg (snd (iqs269_parse_prop gesture_dev reset_bus early_fw_state))) = 200"
  by (simp_all add: parse_prop_eval)

lemma gesture_dev_late:
  "fst (iqs269_parse_prop gesture_dev reset_bus late_fw_state) = Inr ()"
  "timeout_tap (sys_reg (snd (iqs269_parse_prop gesture_dev reset_bus late_fw_state))) = 50"
  "timeout_swipe (sys_reg (snd (iqs269_parse_prop gesture_dev reset_bus late_fw_state))) = 30"
  "thresh_swipe (sys_reg (snd (iqs269_parse_prop gesture_dev reset_bus late_fw_state))) = 200"
  by (simp_all add: parse_prop_eval)

text \<open>
  The device node with timeouts of 800 ms and 480 ms and the threshold 200: they become
  200, 120 and 200 on firmware \<open>0x02\<close>, and 50, 30 and 200 on firmware \<open>0x10\<close>.
\<close>

theorem C9_gesture_scaling_witness:
  "device_property_present gesture_dev ''linux,keycodes'' \<and>
   iqs269_parse_prop gesture_dev reset_bus early_fw_state =
     (Inr (), snd (iqs269_parse_prop gesture_dev reset_bus early_fw_state)) \<and>
   iqs269_parse_prop gesture_dev reset_bus late_fw_state =
     (Inr (), snd (iqs269_parse_prop gesture_dev reset_bus late_fw_state)) \<and>
   device_property_read_u32 gesture_dev ''azoteq,timeout-tap-ms'' = Inr 800 \<and>
   device_property_read_u32 gesture_dev ''azoteq,timeout-swipe-ms'' = Inr 480 \<and>
   device_property_read_u32 gesture_dev ''azoteq,thresh-swipe'' = Inr 200 \<and>
   unat (timeout_tap (sys_reg (snd (iqs269_parse_prop gesture_dev reset_bus early_fw_state))))
     = 200 \<and>
   unat (timeout_swipe (sys_reg (snd (iqs269_parse_prop gesture_dev reset_bus early_fw_state))))
     = 120 \<and>
   unat (thresh_swipe (sys_reg (snd (iqs269_parse_prop gesture_dev reset_bus early_fw_state))))
     = 200 \<and>
   unat (timeout_tap (sys_reg (snd (iqs269_parse_prop gesture_dev reset_bus late_fw_state))))
     = 50 \<and>
   unat (timeout_swipe (sys_reg (snd (iqs269_parse_prop gesture_dev reset_bus late_fw_state))))
     = 30 \<and>
   unat (thresh_swipe (sys_reg (snd (iqs269_parse_prop gesture_dev reset_bus late_fw_state))))
     = 200"
proof -
  have kc: "device_property_present gesture_dev ''linux,keycodes''"
    by (simp add: device_property_present_def fwnode_property_present_def gesture_dev_def)
  have e: "iqs269_parse_prop gesture_dev reset_bus early_fw_state =
     (Inr (), snd (iqs269_parse_prop gesture_dev reset_bus early_fw_state))"
    using gesture_dev_early(1) by (simp add: prod_eq_iff)
  have l: "iqs269_parse_prop gesture_dev reset_bus late_fw_state =
     (Inr (), snd (iqs269_parse_prop gesture_dev reset_bus late_fw_state))"
    using gesture_dev_late(1) by (simp add: prod_eq_iff)
  have rd: "device_property_read_u32 gesture_dev ''azoteq,timeout-tap-ms'' = Inr 800"
    "device_property_read_u32 gesture_dev ''azoteq,timeout-swipe-ms'' = Inr 480"
    "device_property_read_u32 gesture_dev ''azoteq,thresh-swipe'' = Inr 200"
    by (simp_all add: device_property_read_u32_def fwnode_property_read_u32_def
        fwnode_property_read_u32_array_def gesture_dev_def)
  have fw: "fw_num (ver_info early_fw_state) < IQS269_VER_INFO_FW_NUM_3"
    "\<not> fw_num (ver_info late_fw_state) < IQS269_VER_INFO_FW_NUM_3"
    by (simp_all add: early_fw_state_def late_fw_state_def IQS269_VER_INFO_FW_NUM_3_def)
  note te = C9_gesture_scaling [OF kc e]
  note tl = C9_gesture_scaling [OF kc l]
  have e1: "unat (timeout_tap (sys_reg (snd (iqs269_parse_prop gesture_dev reset_bus
      early_fw_state)))) = 200"
    using te [THEN conjunct1, THEN spec, THEN mp, OF rd(1)] fw(1) by simp
  have e2: "unat (timeout_swipe (sys_reg (snd (iqs269_parse_prop gesture_dev reset_bus
      early_fw_state)))) = 120"
    using te [THEN conjunct2, THEN conjunct1, THEN spec, THEN mp, OF rd(2)] fw(1) by simp
  have e3: "unat (thresh_swipe (sys_reg (snd (iqs269_parse_prop gesture_dev reset_bus
      early_fw_state)))) = 200"
    using te [THEN conjunct2, THEN conjunct2, THEN spec, THEN mp, OF rd(3)] by simp
  have l1: "unat (timeout_tap (sys_reg (snd (iqs269_parse_prop gesture_dev reset_bus
      late_fw_state)))) = 50"
    using tl [THEN conjunct1, THEN spec, THEN mp, OF rd(1)] fw(2) by simp
  have l2: "unat (timeout_swipe (sys_reg (snd (iqs269_parse_prop gesture_dev reset_bus
      late_fw_state)))) = 30"
    using tl [THEN conjunct2, THEN conjunct1, THEN spec, THEN mp, OF rd(2)] fw(2) by simp
  have l3: "unat (thresh_swipe (sys_reg (snd (iqs269_parse_prop gesture_dev reset_bus
      late_fw_state)))) = 200"
    using tl [THEN conjunct2, THEN conjunct2, THEN spec, THEN mp, OF rd(3)] by simp
  show ?thesis
    by (intro conjI) (rule kc e l rd e1 e2 e3 l1 l2 l3)+
qed

text \<open>
  Claim C9 as stated fails for the swipe threshold: the supplied value 200 is stored as
  200 on the early and on the late firmware, where the tap timeout of 800 ms is stored as
  200 and as 50. The threshold has no step size, finer or not.
\<close>

theorem C9_thresh_swipe_unscaled_counterexample:
  "fw_num (ver_info early_fw_state) < IQS269_VER_INFO_FW_NUM_3 \<and>
   \<not> fw_num (ver_info late_fw_state) < IQS269_VER_INFO_FW_NUM_3 \<and>
   device_property_read_u32 gesture_dev ''azoteq,thresh-swipe'' = Inr 200 \<and>
   fst (iqs269_parse_prop gesture_dev reset_bus early_fw_state) = Inr () \<and>
   fst (iqs269_parse_prop gesture_dev reset_bus late_fw_state) = Inr () \<and>
   thresh_swipe (sys_reg (snd (iqs269_parse_prop gesture_dev reset_bus early_fw_state))) = 200 \<and>
   thresh_swipe (sys_reg (snd (iqs269_parse_prop gesture_dev reset_bus late_fw_state))) = 200 \<and>
   timeout_tap (sys_reg (snd (iqs269_parse_prop gesture_dev reset_bus early_fw_state))) = 200 \<and>
   timeout_tap (sys_reg (snd (iqs269_parse_prop gesture_dev reset_bus late_fw_state))) = 50"
proof -
  have rd: "device_property_read_u32 gesture_dev ''azoteq,thresh-swipe'' = Inr 200"
    by (simp add: device_property_read_u32_def fwnode_property_read_u32_def
        fwnode_property_read_u32_array_def gesture_dev_def)
  have fw: "fw_num (ver_info early_fw_state) < IQS269_VER_INFO_FW_NUM_3"
    "\<not> fw_num (ver_info late_fw_state) < IQS269_VER_INFO_FW_NUM_3"
    by (simp_all add: early_fw_state_def late_fw_state_def IQS269_VER_INFO_FW_NUM_3_def)
  show ?thesis
    by (intro conjI)
       (rule fw rd gesture_dev_early(1,2,4) gesture_dev_late(1,2,4))+
qed

end
